theory Spec2Isabelle
  imports Complex_Main "HOL-Library.Word" "HOL-Library.AList" "HOL-Library.Sublist"
begin

section \<open>Python values\<close>

text \<open>
  A Python \<^verbatim>\<open>str\<close> is modelled by its UTF-8 encoding, a list of 8-bit characters; the
  Korean literals of the source are therefore written as byte lists. A Python \<^verbatim>\<open>float\<close>
  is the bit pattern of its IEEE 754 binary64 value. The values that \<^verbatim>\<open>json.loads\<close> and
  the request decoder produce (\<^verbatim>\<open>Any\<close>) are the type \<open>json\<close>; a dictionary keeps its
  insertion order, as Python's does, and is an association list.
\<close>

type_synonym pyfloat = "64 word"

datatype json =
    JNull
  | JBool bool
  | JInt int
  | JFloat pyfloat
  | JStr string
  | JArr "json list"
  | JObj "(string \<times> json) list"

type_synonym pydict = "(string \<times> json) list"

text \<open>\<^verbatim>\<open>d.get(k, default)\<close>, \<^verbatim>\<open>k in d\<close> and \<^verbatim>\<open>d[k] = v\<close> on a dictionary.\<close>

definition dict_get :: "pydict \<Rightarrow> string \<Rightarrow> json \<Rightarrow> json" where
  "dict_get d k dflt = (case map_of d k of None \<Rightarrow> dflt | Some v \<Rightarrow> v)"

definition dict_contains :: "pydict \<Rightarrow> string \<Rightarrow> bool" where
  "dict_contains d k = (map_of d k \<noteq> None)"

definition dict_set :: "pydict \<Rightarrow> string \<Rightarrow> json \<Rightarrow> pydict" where
  "dict_set d k v = AList.update k v d"

text \<open>The truth value of a Python object, as \<^verbatim>\<open>if x\<close> and \<^verbatim>\<open>a if x else b\<close> read it.\<close>

fun truthy :: "json \<Rightarrow> bool" where
  "truthy JNull = False"
| "truthy (JBool b) = b"
| "truthy (JInt i) = (i \<noteq> 0)"
| "truthy (JFloat f) = (take_bit 63 f \<noteq> 0)"
| "truthy (JStr s) = (s \<noteq> [])"
| "truthy (JArr xs) = (xs \<noteq> [])"
| "truthy (JObj d) = (d \<noteq> [])"

fun type_name :: "json \<Rightarrow> string" where
  "type_name JNull = ''NoneType''"
| "type_name (JBool b) = ''bool''"
| "type_name (JInt i) = ''int''"
| "type_name (JFloat f) = ''float''"
| "type_name (JStr s) = ''str''"
| "type_name (JArr xs) = ''list''"
| "type_name (JObj d) = ''dict''"

section \<open>Exceptions\<close>

text \<open>
  An exception is a value; every constructor but \<open>HTTPException\<close> carries \<^verbatim>\<open>str(e)\<close>.
  \<open>OtherException\<close> stands for any further subclass of \<^verbatim>\<open>Exception\<close> (class name and
  message), \<open>NonException\<close> for a \<^verbatim>\<open>BaseException\<close> that is not an \<^verbatim>\<open>Exception\<close>
  (\<^verbatim>\<open>KeyboardInterrupt\<close>, \<^verbatim>\<open>SystemExit\<close>): \<^verbatim>\<open>except Exception\<close> lets it pass, a bare
  \<^verbatim>\<open>except:\<close> catches it.
\<close>

datatype exn =
    HTTPException nat json
  | JSONDecodeError string
  | ValueError string
  | KeyError string
  | TypeError string
  | AttributeError string
  | OtherException string string
  | NonException string string

fun is_HTTPException :: "exn \<Rightarrow> bool" where
  "is_HTTPException (HTTPException status detail) = True"
| "is_HTTPException e = False"

fun is_JSONDecodeError :: "exn \<Rightarrow> bool" where
  "is_JSONDecodeError (JSONDecodeError m) = True"
| "is_JSONDecodeError e = False"

fun is_Exception :: "exn \<Rightarrow> bool" where
  "is_Exception (NonException c m) = False"
| "is_Exception e = True"

text \<open>
  Sequencing of computations that may raise, and one \<^verbatim>\<open>try ... except C as e: handler\<close>:
  the handler runs on the exceptions of class \<open>C\<close>, every other exception goes on.
\<close>

definition bind_exn :: "exn + 'a \<Rightarrow> ('a \<Rightarrow> exn + 'b) \<Rightarrow> exn + 'b" where
  "bind_exn m f = (case m of Inl e \<Rightarrow> Inl e | Inr v \<Rightarrow> f v)"

definition try_except :: "exn + 'a \<Rightarrow> (exn \<Rightarrow> bool) \<Rightarrow> (exn \<Rightarrow> exn + 'a) \<Rightarrow> exn + 'a" where
  "try_except body caught handler =
     (case body of Inr v \<Rightarrow> Inr v | Inl e \<Rightarrow> if caught e then handler e else Inl e)"

section \<open>What the program calls but does not define\<close>

text \<open>
  The configuration that \<^verbatim>\<open>call_gemini\<close> builds from \<^verbatim>\<open>config_params\<close>: the temperature is
  always set, the two other keys only under their conditions.
\<close>

record GenerateContentConfig =
  cfg_temperature :: pyfloat
  cfg_response_mime_type :: "string option"
  cfg_system_instruction :: "string option"

text \<open>
  The object that \<^verbatim>\<open>client.models.generate_content\<close> returns, as far as the program looks at
  it: it has no attribute \<^verbatim>\<open>text\<close>, or it has one, which is a string or \<^verbatim>\<open>None\<close>.
\<close>

datatype GenerateContentResponse = NoTextAttribute | TextAttribute "string option"

text \<open>
  The upstream service and the library functions are the fields of a record that every
  handler takes: the outcome of \<^verbatim>\<open>client.models.generate_content(model, contents, config)\<close>
  for the fixed model, \<^verbatim>\<open>json.loads\<close> on a string, \<^verbatim>\<open>json.dumps(v, ensure_ascii=False)\<close>, and
  \<^verbatim>\<open>str(v)\<close> on a value that is not a string. The last two can raise: CPython refuses to
  print an integer of more than 4300 digits with a \<^verbatim>\<open>ValueError\<close>. For \<^verbatim>\<open>str\<close> the field
  \<open>str_error\<close> is the exception it raises on a value, where it raises, and \<open>str_of\<close> the
  string it returns elsewhere. Nothing is assumed about the fields.
\<close>

record runtime =
  generate_content :: "string \<Rightarrow> GenerateContentConfig \<Rightarrow> exn + GenerateContentResponse"
  json_loads :: "string \<Rightarrow> exn + json"
  json_dumps :: "json \<Rightarrow> exn + string"
  str_of :: "json \<Rightarrow> string"
  str_error :: "json \<Rightarrow> exn option"

text \<open>
  What an f-string inserts for \<^verbatim>\<open>{v}\<close>: the string itself, or \<^verbatim>\<open>str(v)\<close>, which may raise.
\<close>

definition fmt :: "runtime \<Rightarrow> json \<Rightarrow> exn + string" where
  "fmt rt v =
     (case v of
        JStr s \<Rightarrow> Inr s
      | _ \<Rightarrow> (case str_error rt v of Some e \<Rightarrow> Inl e | None \<Rightarrow> Inr (str_of rt v)))"

text \<open>
  \<^verbatim>\<open>str(e)\<close>, which the program reads in \<^verbatim>\<open>call_gemini\<close> and \<^verbatim>\<open>parse_json_response\<close> on what
  the client library and the parser raised; it is taken to return. For the framework's
  \<^verbatim>\<open>HTTPException\<close> it is the status code, a colon and the detail.
\<close>

fun exn_str :: "runtime \<Rightarrow> exn \<Rightarrow> string" where
  "exn_str rt (HTTPException status detail) =
     str_of rt (JInt (int status)) @ '': ''
     @ (case detail of JStr s \<Rightarrow> s | _ \<Rightarrow> str_of rt detail)"
| "exn_str rt (JSONDecodeError m) = m"
| "exn_str rt (ValueError m) = m"
| "exn_str rt (KeyError m) = m"
| "exn_str rt (TypeError m) = m"
| "exn_str rt (AttributeError m) = m"
| "exn_str rt (OtherException c m) = m"
| "exn_str rt (NonException c m) = m"

section \<open>Utility functions of the server\<close>

definition msg_no_text_attribute :: string where
  "msg_no_text_attribute =
     ''Gemini '' @ [CHR 0xEC, CHR 0x9D, CHR 0x91, CHR 0xEB, CHR 0x8B, CHR 0xB5, CHR 0xEC,
     CHR 0x97, CHR 0x90] @ '' text '' @ [CHR 0xEC, CHR 0x86, CHR 0x8D, CHR 0xEC, CHR 0x84,
     CHR 0xB1, CHR 0xEC, CHR 0x9D, CHR 0xB4] @ '' '' @ [CHR 0xEC, CHR 0x97, CHR 0x86, CHR 0xEC,
     CHR 0x8A, CHR 0xB5, CHR 0xEB, CHR 0x8B, CHR 0x88, CHR 0xEB, CHR 0x8B, CHR 0xA4] @ ''.''"

definition msg_gemini_call_failed :: string where
  "msg_gemini_call_failed =
     ''Gemini '' @ [CHR 0xED, CHR 0x98, CHR 0xB8, CHR 0xEC, CHR 0xB6, CHR 0x9C] @ '' ''
     @ [CHR 0xEC, CHR 0xA4, CHR 0x91] @ '' '' @ [CHR 0xEC, CHR 0x98, CHR 0xA4, CHR 0xEB, CHR 0xA5,
     CHR 0x98, CHR 0xEA, CHR 0xB0, CHR 0x80] @ '' '' @ [CHR 0xEB, CHR 0xB0, CHR 0x9C, CHR 0xEC,
     CHR 0x83, CHR 0x9D, CHR 0xED, CHR 0x96, CHR 0x88, CHR 0xEC, CHR 0x8A, CHR 0xB5, CHR 0xEB,
     CHR 0x8B, CHR 0x88, CHR 0xEB, CHR 0x8B, CHR 0xA4] @ ''.''"

definition msg_json_parse_failed :: string where
  "msg_json_parse_failed =
     ''AI '' @ [CHR 0xEC, CHR 0x9D, CHR 0x91, CHR 0xEB, CHR 0x8B, CHR 0xB5] @ ''(JSON) ''
     @ [CHR 0xED, CHR 0x8C, CHR 0x8C, CHR 0xEC, CHR 0x8B, CHR 0xB1, CHR 0xEC, CHR 0x97, CHR 0x90]
     @ '' '' @ [CHR 0xEC, CHR 0x8B, CHR 0xA4, CHR 0xED, CHR 0x8C, CHR 0xA8, CHR 0xED, CHR 0x96,
     CHR 0x88, CHR 0xEC, CHR 0x8A, CHR 0xB5, CHR 0xEB, CHR 0x8B, CHR 0x88, CHR 0xEB, CHR 0x8B,
     CHR 0xA4] @ ''.''"

text \<open>The default of the parameter \<^verbatim>\<open>temperature\<close>, the double nearest to 0.7.\<close>

definition default_temperature :: pyfloat where
  "default_temperature = 0x3FE6666666666666"

text \<open>
  \<^verbatim>\<open>call_gemini\<close>, lines 141 to 170. The dictionary \<^verbatim>\<open>config_params\<close> becomes the
  configuration; the body of the \<^verbatim>\<open>try\<close> is \<open>call_gemini_try\<close>; the
  \<^verbatim>\<open>except Exception\<close> turns what it raises into an \<^verbatim>\<open>HTTPException\<close> with status 500. The
  result is \<^verbatim>\<open>response.text\<close>, which may be \<^verbatim>\<open>None\<close>.
\<close>

definition config_params :: "string \<Rightarrow> bool \<Rightarrow> pyfloat \<Rightarrow> GenerateContentConfig" where
  "config_params system_instruction use_json_mode temperature =
     \<lparr>cfg_temperature = temperature,
      cfg_response_mime_type = (if use_json_mode then Some ''application/json'' else None),
      cfg_system_instruction =
        (if system_instruction \<noteq> [] then Some system_instruction else None)\<rparr>"

definition call_gemini_try ::
  "runtime \<Rightarrow> string \<Rightarrow> string \<Rightarrow> bool \<Rightarrow> pyfloat \<Rightarrow> exn + string option" where
  "call_gemini_try rt prompt system_instruction use_json_mode temperature =
     bind_exn
       (generate_content rt prompt (config_params system_instruction use_json_mode temperature))
       (\<lambda>response.
          case response of
            NoTextAttribute \<Rightarrow> Inl (ValueError msg_no_text_attribute)
          | TextAttribute text \<Rightarrow> Inr text)"

definition call_gemini ::
  "runtime \<Rightarrow> string \<Rightarrow> string \<Rightarrow> bool \<Rightarrow> pyfloat \<Rightarrow> exn + string option" where
  "call_gemini rt prompt system_instruction use_json_mode temperature =
     try_except (call_gemini_try rt prompt system_instruction use_json_mode temperature)
       is_Exception
       (\<lambda>e. Inl (HTTPException 500
          (JObj [(''error'', JStr msg_gemini_call_failed), (''reason'', JStr (exn_str rt e))])))"

text \<open>
  \<^verbatim>\<open>json.loads(text)\<close> where \<^verbatim>\<open>text\<close> is what \<^verbatim>\<open>call_gemini\<close> returned: on \<^verbatim>\<open>None\<close> the
  library raises a \<^verbatim>\<open>TypeError\<close> before it parses anything.
\<close>

definition loads :: "runtime \<Rightarrow> string option \<Rightarrow> exn + json" where
  "loads rt text =
     (case text of
        None \<Rightarrow> Inl (TypeError ''the JSON object must be str, bytes or bytearray, not NoneType'')
      | Some s \<Rightarrow> json_loads rt s)"

text \<open>
  \<^verbatim>\<open>parse_json_response\<close>, lines 173 to 196: the two \<^verbatim>\<open>isinstance\<close> steps, then the
  \<^verbatim>\<open>except json.JSONDecodeError\<close>, which answers with an \<^verbatim>\<open>HTTPException\<close> whose detail holds
  the message of the parser and the text.
\<close>

definition wrap_list :: "json \<Rightarrow> json" where
  "wrap_list parsed = (case parsed of JArr xs \<Rightarrow> JObj [(''items'', parsed)] | _ \<Rightarrow> parsed)"

definition wrap_non_dict :: "json \<Rightarrow> pydict" where
  "wrap_non_dict parsed = (case parsed of JObj d \<Rightarrow> d | _ \<Rightarrow> [(''result'', parsed)])"

definition text_value :: "string option \<Rightarrow> json" where
  "text_value text = (case text of None \<Rightarrow> JNull | Some s \<Rightarrow> JStr s)"

definition parse_json_response :: "runtime \<Rightarrow> string option \<Rightarrow> exn + pydict" where
  "parse_json_response rt text =
     try_except
       (bind_exn (loads rt text) (\<lambda>parsed. Inr (wrap_non_dict (wrap_list parsed))))
       is_JSONDecodeError
       (\<lambda>e. Inl (HTTPException 500
          (JObj [(''error'', JStr msg_json_parse_failed),
                 (''reason'', JStr (exn_str rt e)),
                 (''raw_response'', text_value text)])))"

section \<open>Building blocks of the prompts\<close>

text \<open>\<^verbatim>\<open>sep.join(parts)\<close> on a list of strings.\<close>

fun join :: "string \<Rightarrow> string list \<Rightarrow> string" where
  "join sep [] = []"
| "join sep [x] = x"
| "join sep (x # y # ys) = x @ sep @ join sep (y # ys)"

text \<open>
  The characters of a string, which is what iterating over a \<^verbatim>\<open>str\<close> yields: in the UTF-8
  encoding a character is a byte that is not a continuation byte (\<open>0x80\<close> to \<open>0xBF\<close>) together
  with the continuation bytes after it.
\<close>

definition is_continuation :: "char \<Rightarrow> bool" where
  "is_continuation c = (128 \<le> (of_char c :: nat) \<and> (of_char c :: nat) < 192)"

function characters :: "string \<Rightarrow> string list" where
  "characters [] = []"
| "characters (c # cs) =
     (c # takeWhile is_continuation cs) # characters (dropWhile is_continuation cs)"
  by pat_completeness auto
termination
  by (relation "measure length") (auto simp: length_dropWhile_le less_Suc_eq_le)

text \<open>The decimal digits of a natural number, for the message of a \<^verbatim>\<open>TypeError\<close>.\<close>

fun show_nat :: "nat \<Rightarrow> string" where
  "show_nat n =
     (if n < 10 then [char_of (48 + n)] else show_nat (n div 10) @ [char_of (48 + n mod 10)])"

text \<open>
  The items of a list handed to \<^verbatim>\<open>str.join\<close>: the first one that is not a string raises a
  \<^verbatim>\<open>TypeError\<close> that names its index and type.
\<close>

fun str_items :: "nat \<Rightarrow> json list \<Rightarrow> exn + string list" where
  "str_items i [] = Inr []"
| "str_items i (v # vs) =
     (case v of
        JStr s \<Rightarrow> bind_exn (str_items (Suc i) vs) (\<lambda>ss. Inr (s # ss))
      | _ \<Rightarrow> Inl (TypeError (''sequence item '' @ show_nat i @ '': expected str instance, ''
                            @ type_name v @ '' found'')))"

text \<open>
  \<^verbatim>\<open>sep.join(v)\<close> where \<open>v\<close> is any value: a list must hold strings only, a string is joined
  character by character, a dictionary by its keys, and anything else cannot be iterated.
\<close>

definition join_value :: "string \<Rightarrow> json \<Rightarrow> exn + string" where
  "join_value sep v =
     (case v of
        JArr xs \<Rightarrow> bind_exn (str_items 0 xs) (\<lambda>ss. Inr (join sep ss))
      | JStr s \<Rightarrow> Inr (join sep (characters s))
      | JObj d \<Rightarrow> Inr (join sep (map fst d))
      | _ \<Rightarrow> Inl (TypeError ''can only join an iterable''))"

text \<open>
  \<^verbatim>\<open>v.get(k, default)\<close> where \<open>v\<close> is any value: only a dictionary has the method.
\<close>

definition value_get :: "json \<Rightarrow> string \<Rightarrow> json \<Rightarrow> exn + json" where
  "value_get v k dflt =
     (case v of
        JObj d \<Rightarrow> Inr (dict_get d k dflt)
      | _ \<Rightarrow> Inl (AttributeError ([CHR 0x27] @ type_name v @ [CHR 0x27]
                   @ '' object has no attribute '' @ [CHR 0x27] @ ''get'' @ [CHR 0x27])))"

text \<open>
  \<^verbatim>\<open>h[k]\<close> on an entry of the history, a \<^verbatim>\<open>Dict[str, str]\<close>; the message of the \<^verbatim>\<open>KeyError\<close>
  is the key in quotes.
\<close>

definition getitem :: "(string \<times> string) list \<Rightarrow> string \<Rightarrow> exn + string" where
  "getitem h k =
     (case map_of h k of
        None \<Rightarrow> Inl (KeyError ([CHR 0x27] @ k @ [CHR 0x27]))
      | Some v \<Rightarrow> Inr v)"

text \<open>A list comprehension whose element expression may raise: the first failure ends it.\<close>

fun map_exn :: "('a \<Rightarrow> exn + 'b) \<Rightarrow> 'a list \<Rightarrow> exn + 'b list" where
  "map_exn f [] = Inr []"
| "map_exn f (x # xs) = bind_exn (f x) (\<lambda>y. bind_exn (map_exn f xs) (\<lambda>ys. Inr (y # ys)))"

text \<open>
  The slice \<^verbatim>\<open>xs[i:]\<close>: a negative start counts from the end and is clipped at the front.
\<close>

definition slice_from :: "int \<Rightarrow> 'a list \<Rightarrow> 'a list" where
  "slice_from i xs =
     (if i < 0 then drop (nat (max 0 (int (length xs) + i))) xs else drop (nat i) xs)"

section \<open>The game-action route (POST /api/game/action)\<close>

definition label_gm :: string where
  "label_gm = ''[GM]''"

definition label_player :: string where
  "label_player =
     ''['' @ [CHR 0xED, CHR 0x94, CHR 0x8C, CHR 0xEB, CHR 0xA0, CHR 0x88, CHR 0xEC, CHR 0x9D,
     CHR 0xB4, CHR 0xEC, CHR 0x96, CHR 0xB4] @ '']''"

definition label_npc :: string where
  "label_npc = ''[NPC]''"

definition label_system :: string where
  "label_system =
     ''['' @ [CHR 0xEC, CHR 0x8B, CHR 0x9C, CHR 0xEC, CHR 0x8A, CHR 0xA4, CHR 0xED, CHR 0x85,
     CHR 0x9C] @ '']''"

text \<open>Lines 282 to 286: the window over the history and its rendering.\<close>

definition recent_history :: "(string \<times> string) list list \<Rightarrow> (string \<times> string) list list" where
  "recent_history history = (if length history > 10 then slice_from (- 10) history else history)"

definition role_label :: "string \<Rightarrow> string" where
  "role_label role =
     (if role = ''gm'' then label_gm
      else if role = ''player'' then label_player
      else if role = ''npc'' then label_npc
      else label_system)"

definition history_line :: "(string \<times> string) list \<Rightarrow> exn + string" where
  "history_line h =
     bind_exn (getitem h ''role'') (\<lambda>role.
     bind_exn (getitem h ''text'') (\<lambda>text.
       Inr (role_label role @ '': '' @ text)))"

definition history_text :: "(string \<times> string) list list \<Rightarrow> exn + string" where
  "history_text history =
     bind_exn (map_exn history_line (recent_history history)) (\<lambda>lines.
       Inr (join ''\<newline>'' lines))"

definition action_system_instruction :: string where
  "action_system_instruction =
     [CHR 0xEB, CHR 0x8B, CHR 0xB9, CHR 0xEC, CHR 0x8B, CHR 0xA0, CHR 0xEC, CHR 0x9D, CHR 0x80]
     @ '' TRPG '' @ [CHR 0xEA, CHR 0xB2, CHR 0x8C, CHR 0xEC, CHR 0x9E, CHR 0x84] @ '' ''
     @ [CHR 0xEB, CHR 0xA7, CHR 0x88, CHR 0xEC, CHR 0x8A, CHR 0xA4, CHR 0xED, CHR 0x84, CHR 0xB0,
     CHR 0xEC, CHR 0x9E, CHR 0x85, CHR 0xEB, CHR 0x8B, CHR 0x88, CHR 0xEB, CHR 0x8B, CHR 0xA4]
     @ ''. '' @ [CHR 0xEB, CHR 0xAA, CHR 0xB0, CHR 0xEC, CHR 0x9E, CHR 0x85, CHR 0xEA, CHR 0xB0,
     CHR 0x90] @ '' '' @ [CHR 0xEC, CHR 0x9E, CHR 0x88, CHR 0xEA, CHR 0xB2, CHR 0x8C] @ '' ''
     @ [CHR 0xEC, CHR 0xA7, CHR 0x84, CHR 0xED, CHR 0x96, CHR 0x89, CHR 0xED, CHR 0x95, CHR 0x98,
     CHR 0xEC, CHR 0x84, CHR 0xB8, CHR 0xEC, CHR 0x9A, CHR 0x94] @ ''.\<newline>\<newline>''
     @ [CHR 0xEC, CHR 0xA4, CHR 0x91, CHR 0xEC, CHR 0x9A, CHR 0x94] @ '': \<newline>1. ''
     @ [CHR 0xED, CHR 0x94, CHR 0x8C, CHR 0xEB, CHR 0xA0, CHR 0x88, CHR 0xEC, CHR 0x9D, CHR 0xB4,
     CHR 0xEC, CHR 0x96, CHR 0xB4, CHR 0xEC, CHR 0x9D, CHR 0x98] @ '' '' @ [CHR 0xED, CHR 0x96,
     CHR 0x89, CHR 0xEB, CHR 0x8F, CHR 0x99, CHR 0xEC, CHR 0x9D, CHR 0x84] @ '' '' @ [CHR 0xEB,
     CHR 0x8B, CHR 0xA4, CHR 0xEC, CHR 0x8B, CHR 0x9C] @ '' '' @ [CHR 0xEB, CHR 0xAC, CHR 0x98,
     CHR 0xEC, CHR 0x82, CHR 0xAC, CHR 0xED, CHR 0x95, CHR 0x98, CHR 0xEA, CHR 0xB1, CHR 0xB0,
     CHR 0xEB, CHR 0x82, CHR 0x98] @ '' '' @ [CHR 0xEB, CHR 0xB0, CHR 0x98, CHR 0xEB, CHR 0xB3,
     CHR 0xB5, CHR 0xED, CHR 0x95, CHR 0x98, CHR 0xEC, CHR 0xA7, CHR 0x80] @ '' '' @ [CHR 0xEB,
     CHR 0xA7, CHR 0x88, CHR 0xEC, CHR 0x84, CHR 0xB8, CHR 0xEC, CHR 0x9A, CHR 0x94] @ ''. (''
     @ [CHR 0xEC, CHR 0x9D, CHR 0xB4, CHR 0xEB, CHR 0xAF, CHR 0xB8] @ '' '' @ [CHR 0xED, CHR 0x94,
     CHR 0x8C, CHR 0xEB, CHR 0xA0, CHR 0x88, CHR 0xEC, CHR 0x9D, CHR 0xB4, CHR 0xEC, CHR 0x96,
     CHR 0xB4, CHR 0xEA, CHR 0xB0, CHR 0x80] @ '' '' @ [CHR 0xEC, CHR 0x9E, CHR 0x85, CHR 0xEB,
     CHR 0xA0, CHR 0xA5, CHR 0xED, CHR 0x96, CHR 0x88, CHR 0xEC, CHR 0x8A, CHR 0xB5, CHR 0xEB,
     CHR 0x8B, CHR 0x88, CHR 0xEB, CHR 0x8B, CHR 0xA4] @ '')\<newline>2. '' @ [CHR 0xEC, CHR 0x98,
     CHR 0xA4, CHR 0xEC, CHR 0xA7, CHR 0x81] @ '' '' @ [CHR 0xED, CHR 0x96, CHR 0x89, CHR 0xEB,
     CHR 0x8F, CHR 0x99, CHR 0xEC, CHR 0x97, CHR 0x90] @ '' '' @ [CHR 0xEB, CHR 0x8C, CHR 0x80,
     CHR 0xED, CHR 0x95, CHR 0x9C] @ '' '' @ [CHR 0x27, CHR 0xEA, CHR 0xB2, CHR 0xB0, CHR 0xEA,
     CHR 0xB3, CHR 0xBC, CHR 0x27] @ '', '' @ [CHR 0x27] @ ''NPC'' @ [CHR 0xEC, CHR 0x9D,
     CHR 0x98] @ '' '' @ [CHR 0xEB, CHR 0xB0, CHR 0x98, CHR 0xEC, CHR 0x9D, CHR 0x91, CHR 0x27]
     @ '', '' @ [CHR 0x27, CHR 0xEB, CHR 0xB3, CHR 0x80, CHR 0xED, CHR 0x99, CHR 0x94, CHR 0xEB,
     CHR 0x90, CHR 0x9C] @ '' '' @ [CHR 0xEC, CHR 0x83, CHR 0x81, CHR 0xED, CHR 0x99, CHR 0xA9,
     CHR 0x27, CHR 0xEB, CHR 0xA7, CHR 0x8C] @ '' '' @ [CHR 0xEB, CHR 0xAC, CHR 0x98, CHR 0xEC,
     CHR 0x82, CHR 0xAC, CHR 0xED, CHR 0x95, CHR 0x98, CHR 0xEC, CHR 0x84, CHR 0xB8, CHR 0xEC,
     CHR 0x9A, CHR 0x94] @ ''.\<newline>3. '' @ [CHR 0xEC, CHR 0x83, CHR 0x81, CHR 0xED, CHR 0x99,
     CHR 0xA9] @ '' '' @ [CHR 0xEB, CHR 0xAC, CHR 0x98, CHR 0xEC, CHR 0x82, CHR 0xAC]
     @ ''(narration)'' @ [CHR 0xEC, CHR 0x99, CHR 0x80] @ '' NPC'' @ [CHR 0xEC, CHR 0x9D,
     CHR 0x98] @ '' '' @ [CHR 0xEB, CHR 0x8C, CHR 0x80, CHR 0xEC, CHR 0x82, CHR 0xAC]
     @ ''(dialogues)'' @ [CHR 0xEB, CHR 0xA5, CHR 0xBC] @ '' '' @ [CHR 0xEB, CHR 0xB0, CHR 0x98,
     CHR 0xEB, CHR 0x93, CHR 0x9C, CHR 0xEC, CHR 0x8B, CHR 0x9C] @ '' '' @ [CHR 0xEB, CHR 0xB6,
     CHR 0x84, CHR 0xEB, CHR 0xA6, CHR 0xAC, CHR 0xED, CHR 0x95, CHR 0xB4, CHR 0xEC, CHR 0x95,
     CHR 0xBC] @ '' '' @ [CHR 0xED, CHR 0x95, CHR 0xA9, CHR 0xEB, CHR 0x8B, CHR 0x88, CHR 0xEB,
     CHR 0x8B, CHR 0xA4] @ ''.\<newline>\<newline>['' @ [CHR 0xEC, CHR 0x9D, CHR 0xB4, CHR 0xEB,
     CHR 0xAF, CHR 0xB8, CHR 0xEC, CHR 0xA7, CHR 0x80] @ '' '' @ [CHR 0xED, CHR 0x94, CHR 0x84,
     CHR 0xEB, CHR 0xA1, CHR 0xAC, CHR 0xED, CHR 0x94, CHR 0x84, CHR 0xED, CHR 0x8A, CHR 0xB8]
     @ '' '' @ [CHR 0xEC, CHR 0x9E, CHR 0x91, CHR 0xEC, CHR 0x84, CHR 0xB1] @ '' '' @ [CHR 0xEA,
     CHR 0xB7, CHR 0x9C, CHR 0xEC, CHR 0xB9, CHR 0x99] @ '']\<newline>- '' @ [CHR 0xEB, CHR 0xB0,
     CHR 0x98, CHR 0xEB, CHR 0x93, CHR 0x9C, CHR 0xEC, CHR 0x8B, CHR 0x9C] @ '' '' @ [CHR 0xEC,
     CHR 0x98, CHR 0x81, CHR 0xEC, CHR 0x96, CHR 0xB4, CHR 0xEB, CHR 0xA1, CHR 0x9C] @ '' ''
     @ [CHR 0xEC, CHR 0x9E, CHR 0x91, CHR 0xEC, CHR 0x84, CHR 0xB1, CHR 0xED, CHR 0x95, CHR 0x98,
     CHR 0xEC, CHR 0x84, CHR 0xB8, CHR 0xEC, CHR 0x9A, CHR 0x94] @ ''.\<newline>- '' @ [CHR 0xEC,
     CHR 0x8B, CHR 0x9C, CHR 0xEB, CHR 0x82, CHR 0x98, CHR 0xEB, CHR 0xA6, CHR 0xAC, CHR 0xEC,
     CHR 0x98, CHR 0xA4, CHR 0xEC, CHR 0x9D, CHR 0x98] @ '' '' @ [CHR 0xEC, CHR 0x8B, CHR 0x9C,
     CHR 0xEB, CHR 0x8C, CHR 0x80, CHR 0xEC, CHR 0xA0, CHR 0x81] @ '' '' @ [CHR 0xEB, CHR 0xB0,
     CHR 0xB0, CHR 0xEA, CHR 0xB2, CHR 0xBD] @ ''('' @ [CHR 0xEC, CHR 0x98, CHR 0x88]
     @ '': medieval fantasy, cyberpunk, horror)'' @ [CHR 0xEC, CHR 0x9D, CHR 0x84] @ '' ''
     @ [CHR 0xEA, CHR 0xB0, CHR 0x80, CHR 0xEC, CHR 0x9E, CHR 0xA5] @ '' '' @ [CHR 0xEC, CHR 0x95,
     CHR 0x9E, CHR 0xEC, CHR 0x97, CHR 0x90] @ '' '' @ [CHR 0xEB, CHR 0xAA, CHR 0x85, CHR 0xEC,
     CHR 0x8B, CHR 0x9C, CHR 0xED, CHR 0x95, CHR 0x98, CHR 0xEC, CHR 0x84, CHR 0xB8, CHR 0xEC,
     CHR 0x9A, CHR 0x94] @ ''.\<newline>- '' @ [CHR 0xED, CHR 0x99, CHR 0x94, CHR 0xED, CHR 0x92,
     CHR 0x8D] @ '' '' @ [CHR 0xED, CHR 0x82, CHR 0xA4, CHR 0xEC, CHR 0x9B, CHR 0x8C, CHR 0xEB,
     CHR 0x93, CHR 0x9C] @ '' '' @ [CHR 0xED, CHR 0x95, CHR 0x84, CHR 0xEC, CHR 0x88, CHR 0x98]
     @ '' '' @ [CHR 0xED, CHR 0x8F, CHR 0xAC, CHR 0xED, CHR 0x95, CHR 0xA8] @ '': '' @ [CHR 0x22]
     @ ''cinematic lighting, highly detailed, atmospheric, 8k, digital art'' @ [CHR 0x22]
     @ ''\<newline>- '' @ [CHR 0xEC, CHR 0x9D, CHR 0xB8, CHR 0xEB, CHR 0xAC, CHR 0xBC] @ '' ''
     @ [CHR 0xEB, CHR 0xAC, CHR 0x98, CHR 0xEC, CHR 0x82, CHR 0xAC, CHR 0xEA, CHR 0xB0, CHR 0x80]
     @ '' '' @ [CHR 0xED, CHR 0x95, CHR 0x84, CHR 0xEC, CHR 0x9A, CHR 0x94, CHR 0xED, CHR 0x95,
     CHR 0x98, CHR 0xEB, CHR 0xA9, CHR 0xB4] @ '' '' @ [CHR 0x22] @ ''anime style'' @ [CHR 0x22]
     @ '' '' @ [CHR 0xEB, CHR 0x98, CHR 0x90, CHR 0xEB, CHR 0x8A, CHR 0x94] @ '' '' @ [CHR 0x22]
     @ ''realistic style'' @ [CHR 0x22] @ '' '' @ [CHR 0xEC, CHR 0xA4, CHR 0x91] @ '' ''
     @ [CHR 0xED, CHR 0x95, CHR 0x98, CHR 0xEB, CHR 0x82, CHR 0x98, CHR 0xEB, CHR 0xA5, CHR 0xBC]
     @ '' '' @ [CHR 0xEC, CHR 0x9D, CHR 0xBC, CHR 0xEA, CHR 0xB4, CHR 0x80, CHR 0xEB, CHR 0x90,
     CHR 0x98, CHR 0xEA, CHR 0xB2, CHR 0x8C] @ '' '' @ [CHR 0xEC, CHR 0x82, CHR 0xAC, CHR 0xEC,
     CHR 0x9A, CHR 0xA9, CHR 0xED, CHR 0x95, CHR 0x98, CHR 0xEC, CHR 0x84, CHR 0xB8, CHR 0xEC,
     CHR 0x9A, CHR 0x94] @ ''.\<newline>\<newline>'' @ [CHR 0xEC, CHR 0xB6, CHR 0x9C, CHR 0xEB,
     CHR 0xA0, CHR 0xA5, CHR 0xEC, CHR 0x9D, CHR 0x80] @ '' '' @ [CHR 0xEB, CHR 0xB0, CHR 0x98,
     CHR 0xEB, CHR 0x93, CHR 0x9C, CHR 0xEC, CHR 0x8B, CHR 0x9C] @ '' '' @ [CHR 0xEB, CHR 0x8B,
     CHR 0xA4, CHR 0xEC, CHR 0x9D, CHR 0x8C] @ '' JSON '' @ [CHR 0xED, CHR 0x98, CHR 0x95,
     CHR 0xEC, CHR 0x8B, CHR 0x9D, CHR 0xEC, CHR 0x9D, CHR 0xB4, CHR 0xEC, CHR 0x96, CHR 0xB4,
     CHR 0xEC, CHR 0x95, CHR 0xBC] @ '' '' @ [CHR 0xED, CHR 0x95, CHR 0xA9, CHR 0xEB, CHR 0x8B,
     CHR 0x88, CHR 0xEB, CHR 0x8B, CHR 0xA4] @ '':\<newline>'' @ [CHR 0x7B] @ ''\<newline>  ''
     @ [CHR 0x22] @ ''narration'' @ [CHR 0x22] @ '': '' @ [CHR 0x22, CHR 0xED, CHR 0x96, CHR 0x89,
     CHR 0xEB, CHR 0x8F, CHR 0x99, CHR 0xEC, CHR 0x9D, CHR 0x98] @ '' '' @ [CHR 0xEA, CHR 0xB2,
     CHR 0xB0, CHR 0xEA, CHR 0xB3, CHR 0xBC, CHR 0xEC, CHR 0x99, CHR 0x80] @ '' '' @ [CHR 0xEC,
     CHR 0x83, CHR 0x81, CHR 0xED, CHR 0x99, CHR 0xA9] @ '' '' @ [CHR 0xEB, CHR 0xB3, CHR 0x80,
     CHR 0xED, CHR 0x99, CHR 0x94] @ '' (3-5'' @ [CHR 0xEB, CHR 0xAC, CHR 0xB8, CHR 0xEC,
     CHR 0x9E, CHR 0xA5] @ '', '' @ [CHR 0xED, CHR 0x94, CHR 0x8C, CHR 0xEB, CHR 0xA0, CHR 0x88,
     CHR 0xEC, CHR 0x9D, CHR 0xB4, CHR 0xEC, CHR 0x96, CHR 0xB4] @ '' '' @ [CHR 0xED, CHR 0x96,
     CHR 0x89, CHR 0xEB, CHR 0x8F, CHR 0x99] @ '' '' @ [CHR 0xEB, CHR 0xB0, CHR 0x98, CHR 0xEB,
     CHR 0xB3, CHR 0xB5] @ '' '' @ [CHR 0xEA, CHR 0xB8, CHR 0x88, CHR 0xEC, CHR 0xA7, CHR 0x80]
     @ '')'' @ [CHR 0x22] @ '',\<newline>  '' @ [CHR 0x22] @ ''dialogues'' @ [CHR 0x22]
     @ '': [\<newline>    '' @ [CHR 0x7B, CHR 0x22] @ ''speaker'' @ [CHR 0x22] @ '': ''
     @ [CHR 0x22] @ ''NPC'' @ [CHR 0xEC, CHR 0x9D, CHR 0xB4, CHR 0xEB, CHR 0xA6, CHR 0x84,
     CHR 0x22] @ '', '' @ [CHR 0x22] @ ''text'' @ [CHR 0x22] @ '': '' @ [CHR 0x22] @ ''NPC''
     @ [CHR 0xEC, CHR 0x9D, CHR 0x98] @ '' '' @ [CHR 0xEB, CHR 0x8C, CHR 0x80, CHR 0xEC, CHR 0x82,
     CHR 0xAC] @ '' '' @ [CHR 0xEB, CHR 0x82, CHR 0xB4, CHR 0xEC, CHR 0x9A, CHR 0xA9, CHR 0x22,
     CHR 0x7D] @ '',\<newline>    '' @ [CHR 0x7B, CHR 0x22] @ ''speaker'' @ [CHR 0x22] @ '': ''
     @ [CHR 0x22] @ ''NPC'' @ [CHR 0xEC, CHR 0x9D, CHR 0xB4, CHR 0xEB, CHR 0xA6, CHR 0x84] @ ''2''
     @ [CHR 0x22] @ '', '' @ [CHR 0x22] @ ''text'' @ [CHR 0x22] @ '': '' @ [CHR 0x22] @ ''NPC2''
     @ [CHR 0xEC, CHR 0x9D, CHR 0x98] @ '' '' @ [CHR 0xEB, CHR 0x8C, CHR 0x80, CHR 0xEC, CHR 0x82,
     CHR 0xAC] @ '' '' @ [CHR 0xEB, CHR 0x82, CHR 0xB4, CHR 0xEC, CHR 0x9A, CHR 0xA9, CHR 0x22,
     CHR 0x7D] @ ''\<newline>  ],\<newline>  '' @ [CHR 0x22] @ ''requires_roll'' @ [CHR 0x22]
     @ '': true '' @ [CHR 0xEB, CHR 0x98, CHR 0x90, CHR 0xEB, CHR 0x8A, CHR 0x94]
     @ '' false,\<newline>  '' @ [CHR 0x22] @ ''roll_type'' @ [CHR 0x22] @ '': '' @ [CHR 0x22,
     CHR 0xED, CHR 0x8C, CHR 0x90, CHR 0xEC, CHR 0xA0, CHR 0x95, CHR 0xEC, CHR 0x9D, CHR 0xB4]
     @ '' '' @ [CHR 0xED, CHR 0x95, CHR 0x84, CHR 0xEC, CHR 0x9A, CHR 0x94, CHR 0xED, CHR 0x95,
     CHR 0x9C] @ '' '' @ [CHR 0xEA, CHR 0xB2, CHR 0xBD, CHR 0xEC, CHR 0x9A, CHR 0xB0] @ '' ''
     @ [CHR 0xEC, CHR 0x8A, CHR 0xA4, CHR 0xED, CHR 0x83, CHR 0xAF] @ '' '' @ [CHR 0xEC, CHR 0x9D,
     CHR 0xB4, CHR 0xEB, CHR 0xA6, CHR 0x84] @ '' (strength/agility/intelligence/luck), ''
     @ [CHR 0xED, CHR 0x95, CHR 0x84, CHR 0xEC, CHR 0x9A, CHR 0x94, CHR 0xEC, CHR 0x97, CHR 0x86,
     CHR 0xEC, CHR 0x9C, CHR 0xBC, CHR 0xEB, CHR 0xA9, CHR 0xB4] @ '' null'' @ [CHR 0x22]
     @ '',\<newline>  '' @ [CHR 0x22] @ ''roll_difficulty'' @ [CHR 0x22] @ '': '' @ [CHR 0x22,
     CHR 0xED, CHR 0x8C, CHR 0x90, CHR 0xEC, CHR 0xA0, CHR 0x95] @ '' '' @ [CHR 0xEB, CHR 0x82,
     CHR 0x9C, CHR 0xEC, CHR 0x9D, CHR 0xB4, CHR 0xEB, CHR 0x8F, CHR 0x84] @ '' '' @ [CHR 0xEC,
     CHR 0x88, CHR 0xAB, CHR 0xEC, CHR 0x9E, CHR 0x90] @ '' (8-18 '' @ [CHR 0xEC, CHR 0x82,
     CHR 0xAC, CHR 0xEC, CHR 0x9D, CHR 0xB4] @ ''), '' @ [CHR 0xED, CHR 0x95, CHR 0x84, CHR 0xEC,
     CHR 0x9A, CHR 0x94, CHR 0xEC, CHR 0x97, CHR 0x86, CHR 0xEC, CHR 0x9C, CHR 0xBC, CHR 0xEB,
     CHR 0xA9, CHR 0xB4] @ '' null'' @ [CHR 0x22] @ '',\<newline>  '' @ [CHR 0x22]
     @ ''damage_taken'' @ [CHR 0x22] @ '': '' @ [CHR 0x22, CHR 0xED, CHR 0x94, CHR 0x8C, CHR 0xEB,
     CHR 0xA0, CHR 0x88, CHR 0xEC, CHR 0x9D, CHR 0xB4, CHR 0xEC, CHR 0x96, CHR 0xB4, CHR 0xEA,
     CHR 0xB0, CHR 0x80] @ '' '' @ [CHR 0xEB, CHR 0xB0, CHR 0x9B, CHR 0xEC, CHR 0x9D, CHR 0x80]
     @ '' '' @ [CHR 0xED, CHR 0x94, CHR 0xBC, CHR 0xED, CHR 0x95, CHR 0xB4] @ '' ('' @ [CHR 0xEC,
     CHR 0x97, CHR 0x86, CHR 0xEC, CHR 0x9C, CHR 0xBC, CHR 0xEB, CHR 0xA9, CHR 0xB4] @ '' 0)''
     @ [CHR 0x22] @ '',\<newline>  '' @ [CHR 0x22] @ ''items_gained'' @ [CHR 0x22] @ '': [''
     @ [CHR 0x22, CHR 0xED, CHR 0x9A, CHR 0x8D, CHR 0xEB, CHR 0x93, CHR 0x9D, CHR 0xED, CHR 0x95,
     CHR 0x9C] @ '' '' @ [CHR 0xEC, CHR 0x95, CHR 0x84, CHR 0xEC, CHR 0x9D, CHR 0xB4, CHR 0xED,
     CHR 0x85, CHR 0x9C, CHR 0xEB, CHR 0x93, CHR 0xA4, CHR 0x22] @ ''],\<newline>  '' @ [CHR 0x22]
     @ ''items_lost'' @ [CHR 0x22] @ '': ['' @ [CHR 0x22, CHR 0xEC, CHR 0x9E, CHR 0x83, CHR 0xEC,
     CHR 0x96, CHR 0xB4, CHR 0xEB, CHR 0xB2, CHR 0x84, CHR 0xEB, CHR 0xA6, CHR 0xB0] @ '' ''
     @ [CHR 0xEC, CHR 0x95, CHR 0x84, CHR 0xEC, CHR 0x9D, CHR 0xB4, CHR 0xED, CHR 0x85, CHR 0x9C,
     CHR 0xEB, CHR 0x93, CHR 0xA4, CHR 0x22] @ ''],\<newline>  '' @ [CHR 0x22] @ ''npc_present''
     @ [CHR 0x22] @ '': '' @ [CHR 0x22, CHR 0xED, CHR 0x98, CHR 0x84, CHR 0xEC, CHR 0x9E,
     CHR 0xAC] @ '' '' @ [CHR 0xEC, CHR 0x9E, CHR 0xA5, CHR 0xEB, CHR 0xA9, CHR 0xB4, CHR 0xEC,
     CHR 0x97, CHR 0x90] @ '' '' @ [CHR 0xEB, CHR 0x93, CHR 0xB1, CHR 0xEC, CHR 0x9E, CHR 0xA5,
     CHR 0xED, CHR 0x95, CHR 0x9C] @ '' NPC '' @ [CHR 0xEC, CHR 0x9D, CHR 0xB4, CHR 0xEB,
     CHR 0xA6, CHR 0x84] @ '' '' @ [CHR 0xEB, CHR 0x98, CHR 0x90, CHR 0xEB, CHR 0x8A, CHR 0x94]
     @ '' null'' @ [CHR 0x22] @ '',\<newline>  '' @ [CHR 0x22] @ ''danger_level'' @ [CHR 0x22]
     @ '': '' @ [CHR 0x22] @ ''safe/caution/danger '' @ [CHR 0xEC, CHR 0xA4, CHR 0x91] @ '' ''
     @ [CHR 0xED, CHR 0x95, CHR 0x98, CHR 0xEB, CHR 0x82, CHR 0x98, CHR 0x22] @ '',\<newline>  ''
     @ [CHR 0x22] @ ''image_prompt'' @ [CHR 0x22] @ '': '' @ [CHR 0x22, CHR 0xEC, CHR 0x8B,
     CHR 0x9C, CHR 0xEB, CHR 0x8C, CHR 0x80] @ '' '' @ [CHR 0xEB, CHR 0xB0, CHR 0xB0, CHR 0xEA,
     CHR 0xB2, CHR 0xBD] @ '' + '' @ [CHR 0xED, CHR 0x98, CHR 0x84, CHR 0xEC, CHR 0x9E, CHR 0xAC]
     @ '' '' @ [CHR 0xEC, CHR 0x9E, CHR 0xA5, CHR 0xEB, CHR 0xA9, CHR 0xB4] @ '' '' @ [CHR 0xEB,
     CHR 0xAC, CHR 0x98, CHR 0xEC, CHR 0x82, CHR 0xAC] @ '' + '' @ [CHR 0xED, CHR 0x99, CHR 0x94,
     CHR 0xED, CHR 0x92, CHR 0x8D] @ '' '' @ [CHR 0xED, CHR 0x82, CHR 0xA4, CHR 0xEC, CHR 0x9B,
     CHR 0x8C, CHR 0xEB, CHR 0x93, CHR 0x9C] @ '' ('' @ [CHR 0xEC, CHR 0x98, CHR 0x81, CHR 0xEC,
     CHR 0x96, CHR 0xB4, CHR 0xEB, CHR 0xA1, CHR 0x9C] @ '' '' @ [CHR 0xEC, CHR 0x9E, CHR 0x91,
     CHR 0xEC, CHR 0x84, CHR 0xB1] @ '')'' @ [CHR 0x22] @ ''\<newline>'' @ [CHR 0x7D]"

definition narration_unknown_error :: string where
  "narration_unknown_error =
     [CHR 0xEC, CHR 0x95, CHR 0x8C] @ '' '' @ [CHR 0xEC, CHR 0x88, CHR 0x98] @ '' '' @ [CHR 0xEC,
     CHR 0x97, CHR 0x86, CHR 0xEB, CHR 0x8A, CHR 0x94] @ '' '' @ [CHR 0xEC, CHR 0x98, CHR 0xA4,
     CHR 0xEB, CHR 0xA5, CHR 0x98, CHR 0xEA, CHR 0xB0, CHR 0x80] @ '' '' @ [CHR 0xEB, CHR 0xB0,
     CHR 0x9C, CHR 0xEC, CHR 0x83, CHR 0x9D, CHR 0xED, CHR 0x96, CHR 0x88, CHR 0xEC, CHR 0x8A,
     CHR 0xB5, CHR 0xEB, CHR 0x8B, CHR 0x88, CHR 0xEB, CHR 0x8B, CHR 0xA4] @ ''.''"

text \<open>The literal pieces of the f-string of lines 319 to 343, in their order.\<close>

definition action_prompt_0 :: string where
  "action_prompt_0 =
     ''['' @ [CHR 0xEC, CHR 0x8B, CHR 0x9C, CHR 0xEB, CHR 0x82, CHR 0x98, CHR 0xEB, CHR 0xA6,
     CHR 0xAC, CHR 0xEC, CHR 0x98, CHR 0xA4] @ '' '' @ [CHR 0xEC, CHR 0xA0, CHR 0x95, CHR 0xEB,
     CHR 0xB3, CHR 0xB4] @ '']\<newline>'' @ [CHR 0xEC, CHR 0xA0, CHR 0x9C, CHR 0xEB, CHR 0xAA,
     CHR 0xA9] @ '': ''"

definition action_prompt_1 :: string where
  "action_prompt_1 =
     ''\<newline>'' @ [CHR 0xEB, CHR 0xB0, CHR 0xB0, CHR 0xEA, CHR 0xB2, CHR 0xBD] @ '': ''"

definition action_prompt_2 :: string where
  "action_prompt_2 =
     ''\<newline>'' @ [CHR 0xEB, CHR 0xAA, CHR 0xA9, CHR 0xED, CHR 0x91, CHR 0x9C] @ '': ''"

definition action_prompt_3 :: string where
  "action_prompt_3 =
     ''\<newline>'' @ [CHR 0xEC, CHR 0x9E, CHR 0xA5, CHR 0xEC, CHR 0x86, CHR 0x8C, CHR 0xEB,
     CHR 0x93, CHR 0xA4] @ '': ''"

definition action_prompt_4 :: string where
  "action_prompt_4 =
     ''\<newline>'' @ [CHR 0xEC, CHR 0x9C, CHR 0x84, CHR 0xED, CHR 0x98, CHR 0x91, CHR 0xEC,
     CHR 0x9A, CHR 0x94, CHR 0xEC, CHR 0x86, CHR 0x8C] @ '': ''"

definition action_prompt_5 :: string where
  "action_prompt_5 =
     ''\<newline>\<newline>[NPC '' @ [CHR 0xEC, CHR 0xA0, CHR 0x95, CHR 0xEB, CHR 0xB3, CHR 0xB4]
     @ '']\<newline>''"

definition action_prompt_6 :: string where
  "action_prompt_6 =
     ''\<newline>\<newline>['' @ [CHR 0xED, CHR 0x94, CHR 0x8C, CHR 0xEB, CHR 0xA0, CHR 0x88,
     CHR 0xEC, CHR 0x9D, CHR 0xB4, CHR 0xEC, CHR 0x96, CHR 0xB4] @ '' '' @ [CHR 0xEC, CHR 0xBA,
     CHR 0x90, CHR 0xEB, CHR 0xA6, CHR 0xAD, CHR 0xED, CHR 0x84, CHR 0xB0] @ '']\<newline>''
     @ [CHR 0xEC, CHR 0x9D, CHR 0xB4, CHR 0xEB, CHR 0xA6, CHR 0x84] @ '': ''"

definition action_prompt_7 :: string where
  "action_prompt_7 =
     ''\<newline>'' @ [CHR 0xEC, CHR 0xA7, CHR 0x81, CHR 0xEC, CHR 0x97, CHR 0x85] @ '': ''"

definition action_prompt_8 :: string where
  "action_prompt_8 = ''\<newline>HP: ''"

definition action_prompt_9 :: string where
  "action_prompt_9 = ''/''"

definition action_prompt_10 :: string where
  "action_prompt_10 = ''\<newline>'' @ [CHR 0xED, CHR 0x9E, CHR 0x98] @ '': ''"

definition action_prompt_11 :: string where
  "action_prompt_11 =
     '' / '' @ [CHR 0xEB, CHR 0xAF, CHR 0xBC, CHR 0xEC, CHR 0xB2, CHR 0xA9] @ '': ''"

definition action_prompt_12 :: string where
  "action_prompt_12 =
     '' / '' @ [CHR 0xEC, CHR 0xA7, CHR 0x80, CHR 0xEB, CHR 0x8A, CHR 0xA5] @ '': ''"

definition action_prompt_13 :: string where
  "action_prompt_13 =
     '' / '' @ [CHR 0xED, CHR 0x96, CHR 0x89, CHR 0xEC, CHR 0x9A, CHR 0xB4] @ '': ''"

definition action_prompt_14 :: string where
  "action_prompt_14 =
     ''\<newline>'' @ [CHR 0xEC, CHR 0x86, CHR 0x8C, CHR 0xEC, CHR 0xA7, CHR 0x80, CHR 0xED,
     CHR 0x92, CHR 0x88] @ '': ''"

definition action_prompt_15 :: string where
  "action_prompt_15 =
     ''\<newline>'' @ [CHR 0xEB, CHR 0xB0, CHR 0xB0, CHR 0xEA, CHR 0xB2, CHR 0xBD] @ '': ''"

definition action_prompt_16 :: string where
  "action_prompt_16 =
     ''\<newline>\<newline>['' @ [CHR 0xEC, CHR 0xB5, CHR 0x9C, CHR 0xEA, CHR 0xB7, CHR 0xBC]
     @ '' '' @ [CHR 0xEC, CHR 0xA7, CHR 0x84, CHR 0xED, CHR 0x96, CHR 0x89] @ '' '' @ [CHR 0xEC,
     CHR 0x83, CHR 0x81, CHR 0xED, CHR 0x99, CHR 0xA9] @ '']\<newline>''"

definition action_prompt_17 :: string where
  "action_prompt_17 =
     ''\<newline>\<newline>['' @ [CHR 0xED, CHR 0x94, CHR 0x8C, CHR 0xEB, CHR 0xA0, CHR 0x88,
     CHR 0xEC, CHR 0x9D, CHR 0xB4, CHR 0xEC, CHR 0x96, CHR 0xB4] @ '' '' @ [CHR 0xED, CHR 0x96,
     CHR 0x89, CHR 0xEB, CHR 0x8F, CHR 0x99] @ '']\<newline>''"

definition action_prompt_18 :: string where
  "action_prompt_18 =
     ''\<newline>\<newline>('' @ [CHR 0xEC, CHR 0x9C, CHR 0x84] @ '' '' @ [CHR 0xED, CHR 0x96,
     CHR 0x89, CHR 0xEB, CHR 0x8F, CHR 0x99, CHR 0xEC, CHR 0x97, CHR 0x90] @ '' '' @ [CHR 0xEB,
     CHR 0x8C, CHR 0x80, CHR 0xED, CHR 0x95, CHR 0x9C] @ '' '' @ [CHR 0xEA, CHR 0xB2, CHR 0xB0,
     CHR 0xEA, CHR 0xB3, CHR 0xBC, CHR 0xEB, CHR 0xA7, CHR 0x8C] @ '' '' @ [CHR 0xEB, CHR 0xAC,
     CHR 0x98, CHR 0xEC, CHR 0x82, CHR 0xAC, CHR 0xED, CHR 0x95, CHR 0x98, CHR 0xEC, CHR 0x84,
     CHR 0xB8, CHR 0xEC, CHR 0x9A, CHR 0x94] @ ''. '' @ [CHR 0xED, CHR 0x96, CHR 0x89, CHR 0xEB,
     CHR 0x8F, CHR 0x99] @ '' '' @ [CHR 0xEC, CHR 0x9E, CHR 0x90, CHR 0xEC, CHR 0xB2, CHR 0xB4,
     CHR 0xEB, CHR 0xA5, CHR 0xBC] @ '' '' @ [CHR 0xEB, CHR 0xB3, CHR 0xB5, CHR 0xEC, CHR 0xB0,
     CHR 0xBD, CHR 0xED, CHR 0x95, CHR 0x98, CHR 0xEC, CHR 0xA7, CHR 0x80] @ '' '' @ [CHR 0xEB,
     CHR 0xA7, CHR 0x88, CHR 0xEC, CHR 0x84, CHR 0xB8, CHR 0xEC, CHR 0x9A, CHR 0x94] @ ''.)''"

text \<open>
  The f-string of lines 319 to 343. Each of its expressions is evaluated and formatted
  before the next one, from left to right, so the first one that raises decides the
  exception: formatting a value can raise, and so can the three \<^verbatim>\<open>join\<close>s,
  \<^verbatim>\<open>json.dumps\<close> and the six \<^verbatim>\<open>.get\<close>s on the value under \<^verbatim>\<open>stats\<close>.
\<close>

definition action_prompt ::
  "runtime \<Rightarrow> pydict \<Rightarrow> pydict \<Rightarrow> string \<Rightarrow> string \<Rightarrow> exn + string" where
  "action_prompt rt scenario character history_str action =
     bind_exn (fmt rt (dict_get scenario ''title'' (JStr []))) (\<lambda>title.
     bind_exn (fmt rt (dict_get scenario ''setting'' (JStr []))) (\<lambda>setting.
     bind_exn (fmt rt (dict_get scenario ''goal'' (JStr []))) (\<lambda>goal.
     bind_exn (join_value '', '' (dict_get scenario ''locations'' (JArr []))) (\<lambda>locations.
     bind_exn (join_value '', '' (dict_get scenario ''threats'' (JArr []))) (\<lambda>threats.
     bind_exn (json_dumps rt (dict_get scenario ''npcs'' (JArr []))) (\<lambda>npcs.
     bind_exn (fmt rt (dict_get character ''name'' (JStr []))) (\<lambda>name.
     bind_exn (fmt rt (dict_get character ''class'' (JStr []))) (\<lambda>class_name.
     bind_exn (bind_exn (value_get (dict_get character ''stats'' (JObj [])) ''hp'' (JInt 100))
                 (fmt rt)) (\<lambda>hp.
     bind_exn (bind_exn (value_get (dict_get character ''stats'' (JObj [])) ''maxHp'' (JInt 100))
                 (fmt rt)) (\<lambda>maxHp.
     bind_exn (bind_exn (value_get (dict_get character ''stats'' (JObj [])) ''strength'' (JInt 10))
                 (fmt rt)) (\<lambda>strength.
     bind_exn (bind_exn (value_get (dict_get character ''stats'' (JObj [])) ''agility'' (JInt 10))
                 (fmt rt)) (\<lambda>agility.
     bind_exn (bind_exn
                 (value_get (dict_get character ''stats'' (JObj [])) ''intelligence'' (JInt 10))
                 (fmt rt)) (\<lambda>intelligence.
     bind_exn (bind_exn (value_get (dict_get character ''stats'' (JObj [])) ''luck'' (JInt 10))
                 (fmt rt)) (\<lambda>luck.
     bind_exn (join_value '', '' (dict_get character ''inventory'' (JArr []))) (\<lambda>inventory.
     bind_exn (fmt rt (dict_get character ''background'' (JStr []))) (\<lambda>background.
       Inr (concat
         [action_prompt_0, title,
          action_prompt_1, setting,
          action_prompt_2, goal,
          action_prompt_3, locations,
          action_prompt_4, threats,
          action_prompt_5, npcs,
          action_prompt_6, name,
          action_prompt_7, class_name,
          action_prompt_8, hp,
          action_prompt_9, maxHp,
          action_prompt_10, strength,
          action_prompt_11, agility,
          action_prompt_12, intelligence,
          action_prompt_13, luck,
          action_prompt_14, inventory,
          action_prompt_15, background,
          action_prompt_16, history_str,
          action_prompt_17, action,
          action_prompt_18])))))))))))))))))"

text \<open>The request body, \<^verbatim>\<open>class GameActionRequest(BaseModel)\<close>.\<close>

record GameActionRequest =
  scenario :: pydict
  character :: pydict
  history :: "(string \<times> string) list list"
  action :: string

text \<open>Everything the handler does before its \<^verbatim>\<open>try\<close>: lines 276 to 343.\<close>

definition game_action_prompt :: "runtime \<Rightarrow> GameActionRequest \<Rightarrow> exn + string" where
  "game_action_prompt rt request =
     (let scenario = scenario request;
          character = character request;
          history = history request;
          action = action request
      in bind_exn (history_text history) (\<lambda>history_text.
           action_prompt rt scenario character history_text action))"

text \<open>The placeholder of lines 360 to 372.\<close>

definition game_action_fallback :: pydict where
  "game_action_fallback =
     [(''narration'', JStr narration_unknown_error),
      (''dialogues'', JArr []),
      (''requires_roll'', JBool False),
      (''roll_type'', JNull),
      (''roll_difficulty'', JNull),
      (''damage_taken'', JInt 0),
      (''items_gained'', JArr []),
      (''items_lost'', JArr []),
      (''npc_present'', JNull),
      (''danger_level'', JStr ''safe''),
      (''image_prompt'', JNull)]"

text \<open>
  The step both game-event routes take on the parsed result:
  \<^verbatim>\<open>if 'dialogues' not in result: result['dialogues'] = []\<close>.
\<close>

definition default_dialogues :: "pydict \<Rightarrow> pydict" where
  "default_dialogues result =
     (if \<not> dict_contains result ''dialogues'' then dict_set result ''dialogues'' (JArr [])
      else result)"

text \<open>The body of the \<^verbatim>\<open>try\<close>, lines 346 to 353.\<close>

definition game_action_try :: "runtime \<Rightarrow> string \<Rightarrow> exn + pydict" where
  "game_action_try rt prompt =
     bind_exn (call_gemini rt prompt action_system_instruction True default_temperature)
       (\<lambda>response_text.
     bind_exn (parse_json_response rt response_text) (\<lambda>result.
       Inr [(''success'', JBool True), (''result'', JObj (default_dialogues result))]))"

text \<open>
  \<^verbatim>\<open>game_action\<close>, lines 274 to 373. A value \<open>Inr body\<close> is the dictionary the handler
  returns, which the framework sends with status 200; \<open>Inl e\<close> is an exception that leaves
  the handler. The first \<^verbatim>\<open>except\<close> clause raises an \<^verbatim>\<open>HTTPException\<close> again, the second
  answers every other \<^verbatim>\<open>Exception\<close> with the placeholder.
\<close>

definition game_action :: "runtime \<Rightarrow> GameActionRequest \<Rightarrow> exn + pydict" where
  "game_action rt request =
     bind_exn (game_action_prompt rt request) (\<lambda>prompt.
       case game_action_try rt prompt of
         Inr body \<Rightarrow> Inr body
       | Inl e \<Rightarrow>
           if is_HTTPException e then Inl e
           else if is_Exception e then
             Inr [(''success'', JBool True), (''result'', JObj game_action_fallback)]
           else Inl e)"

section \<open>The roll-result route (POST /api/game/roll-result)\<close>

definition text_critical :: string where
  "text_critical =
     [CHR 0xEB, CHR 0x8C, CHR 0x80, CHR 0xEC, CHR 0x84, CHR 0xB1, CHR 0xEA, CHR 0xB3, CHR 0xB5]
     @ ''!''"

definition text_success :: string where
  "text_success = [CHR 0xEC, CHR 0x84, CHR 0xB1, CHR 0xEA, CHR 0xB3, CHR 0xB5] @ ''!''"

definition text_fumble :: string where
  "text_fumble =
     [CHR 0xEB, CHR 0x8C, CHR 0x80, CHR 0xEC, CHR 0x8B, CHR 0xA4, CHR 0xED, CHR 0x8C, CHR 0xA8]
     @ ''...''"

definition text_failure :: string where
  "text_failure = [CHR 0xEC, CHR 0x8B, CHR 0xA4, CHR 0xED, CHR 0x8C, CHR 0xA8] @ ''...''"

definition roll_system_instruction :: string where
  "roll_system_instruction =
     [CHR 0xEB, CHR 0x8B, CHR 0xB9, CHR 0xEC, CHR 0x8B, CHR 0xA0, CHR 0xEC, CHR 0x9D, CHR 0x80]
     @ '' TRPG '' @ [CHR 0xEA, CHR 0xB2, CHR 0x8C, CHR 0xEC, CHR 0x9E, CHR 0x84] @ '' ''
     @ [CHR 0xEB, CHR 0xA7, CHR 0x88, CHR 0xEC, CHR 0x8A, CHR 0xA4, CHR 0xED, CHR 0x84, CHR 0xB0,
     CHR 0xEC, CHR 0x9E, CHR 0x85, CHR 0xEB, CHR 0x8B, CHR 0x88, CHR 0xEB, CHR 0x8B, CHR 0xA4]
     @ ''.\<newline>\<newline>'' @ [CHR 0xEC, CHR 0xA4, CHR 0x91, CHR 0xEC, CHR 0x9A, CHR 0x94]
     @ '': '' @ [CHR 0xED, CHR 0x94, CHR 0x8C, CHR 0xEB, CHR 0xA0, CHR 0x88, CHR 0xEC, CHR 0x9D,
     CHR 0xB4, CHR 0xEC, CHR 0x96, CHR 0xB4, CHR 0xEC, CHR 0x9D, CHR 0x98] @ '' '' @ [CHR 0xED,
     CHR 0x96, CHR 0x89, CHR 0xEB, CHR 0x8F, CHR 0x99, CHR 0xEC, CHR 0x9D, CHR 0x84] @ '' ''
     @ [CHR 0xEB, CHR 0xB0, CHR 0x98, CHR 0xEB, CHR 0xB3, CHR 0xB5] @ '' '' @ [CHR 0xEC, CHR 0x84,
     CHR 0x9C, CHR 0xEC, CHR 0x88, CHR 0xA0, CHR 0xED, CHR 0x95, CHR 0x98, CHR 0xEC, CHR 0xA7,
     CHR 0x80] @ '' '' @ [CHR 0xEB, CHR 0xA7, CHR 0x88, CHR 0xEC, CHR 0x84, CHR 0xB8, CHR 0xEC,
     CHR 0x9A, CHR 0x94] @ ''. '' @ [CHR 0xED, CHR 0x8C, CHR 0x90, CHR 0xEC, CHR 0xA0, CHR 0x95]
     @ '' '' @ [CHR 0xEA, CHR 0xB2, CHR 0xB0, CHR 0xEA, CHR 0xB3, CHR 0xBC, CHR 0xEC, CHR 0x97,
     CHR 0x90] @ '' '' @ [CHR 0xEB, CHR 0x94, CHR 0xB0, CHR 0xEB, CHR 0xA5, CHR 0xB8] @ '' ''
     @ [CHR 0x27, CHR 0xEA, CHR 0xB2, CHR 0xB0, CHR 0xEA, CHR 0xB3, CHR 0xBC, CHR 0x27, CHR 0xEB,
     CHR 0xA7, CHR 0x8C] @ '' '' @ [CHR 0xEB, CHR 0xAC, CHR 0x98, CHR 0xEC, CHR 0x82, CHR 0xAC,
     CHR 0xED, CHR 0x95, CHR 0x98, CHR 0xEC, CHR 0x84, CHR 0xB8, CHR 0xEC, CHR 0x9A, CHR 0x94]
     @ ''.\<newline>\<newline>['' @ [CHR 0xEC, CHR 0x9D, CHR 0xB4, CHR 0xEB, CHR 0xAF, CHR 0xB8,
     CHR 0xEC, CHR 0xA7, CHR 0x80] @ '' '' @ [CHR 0xED, CHR 0x94, CHR 0x84, CHR 0xEB, CHR 0xA1,
     CHR 0xAC, CHR 0xED, CHR 0x94, CHR 0x84, CHR 0xED, CHR 0x8A, CHR 0xB8] @ '' '' @ [CHR 0xEC,
     CHR 0x9E, CHR 0x91, CHR 0xEC, CHR 0x84, CHR 0xB1] @ '' '' @ [CHR 0xEA, CHR 0xB7, CHR 0x9C,
     CHR 0xEC, CHR 0xB9, CHR 0x99] @ '']\<newline>- '' @ [CHR 0xEB, CHR 0xB0, CHR 0x98, CHR 0xEB,
     CHR 0x93, CHR 0x9C, CHR 0xEC, CHR 0x8B, CHR 0x9C] @ '' '' @ [CHR 0xEC, CHR 0x98, CHR 0x81,
     CHR 0xEC, CHR 0x96, CHR 0xB4, CHR 0xEB, CHR 0xA1, CHR 0x9C] @ '' '' @ [CHR 0xEC, CHR 0x9E,
     CHR 0x91, CHR 0xEC, CHR 0x84, CHR 0xB1, CHR 0xED, CHR 0x95, CHR 0x98, CHR 0xEC, CHR 0x84,
     CHR 0xB8, CHR 0xEC, CHR 0x9A, CHR 0x94] @ ''.\<newline>- '' @ [CHR 0xEC, CHR 0x8B, CHR 0x9C,
     CHR 0xEB, CHR 0x82, CHR 0x98, CHR 0xEB, CHR 0xA6, CHR 0xAC, CHR 0xEC, CHR 0x98, CHR 0xA4,
     CHR 0xEC, CHR 0x9D, CHR 0x98] @ '' '' @ [CHR 0xEC, CHR 0x8B, CHR 0x9C, CHR 0xEB, CHR 0x8C,
     CHR 0x80, CHR 0xEC, CHR 0xA0, CHR 0x81] @ '' '' @ [CHR 0xEB, CHR 0xB0, CHR 0xB0, CHR 0xEA,
     CHR 0xB2, CHR 0xBD] @ ''('' @ [CHR 0xEC, CHR 0x98, CHR 0x88] @ '': medieval fantasy)''
     @ [CHR 0xEC, CHR 0x9D, CHR 0x84] @ '' '' @ [CHR 0xED, CHR 0x8F, CHR 0xAC, CHR 0xED, CHR 0x95,
     CHR 0xA8, CHR 0xED, CHR 0x95, CHR 0x98, CHR 0xEC, CHR 0x84, CHR 0xB8, CHR 0xEC, CHR 0x9A,
     CHR 0x94] @ ''.\<newline>- '' @ [CHR 0xED, CHR 0x99, CHR 0x94, CHR 0xED, CHR 0x92, CHR 0x8D]
     @ '' '' @ [CHR 0xED, CHR 0x82, CHR 0xA4, CHR 0xEC, CHR 0x9B, CHR 0x8C, CHR 0xEB, CHR 0x93,
     CHR 0x9C] @ '' '' @ [CHR 0xED, CHR 0x95, CHR 0x84, CHR 0xEC, CHR 0x88, CHR 0x98] @ '': ''
     @ [CHR 0x22] @ ''cinematic lighting, highly detailed, atmospheric, 8k'' @ [CHR 0x22]
     @ ''\<newline>\<newline>'' @ [CHR 0xEC, CHR 0xB6, CHR 0x9C, CHR 0xEB, CHR 0xA0, CHR 0xA5,
     CHR 0xEC, CHR 0x9D, CHR 0x80] @ '' '' @ [CHR 0xEB, CHR 0xB0, CHR 0x98, CHR 0xEB, CHR 0x93,
     CHR 0x9C, CHR 0xEC, CHR 0x8B, CHR 0x9C] @ '' '' @ [CHR 0xEB, CHR 0x8B, CHR 0xA4, CHR 0xEC,
     CHR 0x9D, CHR 0x8C] @ '' JSON '' @ [CHR 0xED, CHR 0x98, CHR 0x95, CHR 0xEC, CHR 0x8B,
     CHR 0x9D, CHR 0xEC, CHR 0x9D, CHR 0xB4, CHR 0xEC, CHR 0x96, CHR 0xB4, CHR 0xEC, CHR 0x95,
     CHR 0xBC] @ '' '' @ [CHR 0xED, CHR 0x95, CHR 0xA9, CHR 0xEB, CHR 0x8B, CHR 0x88, CHR 0xEB,
     CHR 0x8B, CHR 0xA4] @ '':\<newline>'' @ [CHR 0x7B] @ ''\<newline>  '' @ [CHR 0x22]
     @ ''narration'' @ [CHR 0x22] @ '': '' @ [CHR 0x22, CHR 0xEA, CHR 0xB2, CHR 0xB0, CHR 0xEA,
     CHR 0xB3, CHR 0xBC] @ '' '' @ [CHR 0xEB, CHR 0xAC, CHR 0x98, CHR 0xEC, CHR 0x82, CHR 0xAC]
     @ '' (2-4'' @ [CHR 0xEB, CHR 0xAC, CHR 0xB8, CHR 0xEC, CHR 0x9E, CHR 0xA5] @ '', NPC ''
     @ [CHR 0xEB, CHR 0x8C, CHR 0x80, CHR 0xEC, CHR 0x82, CHR 0xAC] @ '' '' @ [CHR 0xEC, CHR 0xA0,
     CHR 0x9C, CHR 0xEC, CHR 0x99, CHR 0xB8] @ '', '' @ [CHR 0xED, CHR 0x96, CHR 0x89, CHR 0xEB,
     CHR 0x8F, CHR 0x99] @ '' '' @ [CHR 0xEB, CHR 0xB0, CHR 0x98, CHR 0xEB, CHR 0xB3, CHR 0xB5]
     @ '' '' @ [CHR 0xEA, CHR 0xB8, CHR 0x88, CHR 0xEC, CHR 0xA7, CHR 0x80] @ '')'' @ [CHR 0x22]
     @ '',\<newline>  '' @ [CHR 0x22] @ ''dialogues'' @ [CHR 0x22] @ '': [\<newline>    ''
     @ [CHR 0x7B, CHR 0x22] @ ''speaker'' @ [CHR 0x22] @ '': '' @ [CHR 0x22] @ ''NPC''
     @ [CHR 0xEC, CHR 0x9D, CHR 0xB4, CHR 0xEB, CHR 0xA6, CHR 0x84, CHR 0x22] @ '', ''
     @ [CHR 0x22] @ ''text'' @ [CHR 0x22] @ '': '' @ [CHR 0x22] @ ''NPC'' @ [CHR 0xEC, CHR 0x9D,
     CHR 0x98] @ '' '' @ [CHR 0xEB, CHR 0x8C, CHR 0x80, CHR 0xEC, CHR 0x82, CHR 0xAC] @ '' ''
     @ [CHR 0xEB, CHR 0x82, CHR 0xB4, CHR 0xEC, CHR 0x9A, CHR 0xA9, CHR 0x22, CHR 0x7D]
     @ ''\<newline>  ],\<newline>  '' @ [CHR 0x22] @ ''damage_taken'' @ [CHR 0x22] @ '': ''
     @ [CHR 0x22, CHR 0xEC, CHR 0x8B, CHR 0xA4, CHR 0xED, CHR 0x8C, CHR 0xA8, CHR 0xEB, CHR 0xA1,
     CHR 0x9C] @ '' '' @ [CHR 0xEC, CHR 0x9D, CHR 0xB8, CHR 0xED, CHR 0x95, CHR 0x9C] @ '' ''
     @ [CHR 0xED, CHR 0x94, CHR 0xBC, CHR 0xED, CHR 0x95, CHR 0xB4] @ '' (0-20)'' @ [CHR 0x22]
     @ '',\<newline>  '' @ [CHR 0x22] @ ''items_gained'' @ [CHR 0x22] @ '': ['' @ [CHR 0x22,
     CHR 0xEC, CHR 0x84, CHR 0xB1, CHR 0xEA, CHR 0xB3, CHR 0xB5, CHR 0xEC, CHR 0x8B, CHR 0x9C]
     @ '' '' @ [CHR 0xED, CHR 0x9A, CHR 0x8D, CHR 0xEB, CHR 0x93, CHR 0x9D] @ '' '' @ [CHR 0xEC,
     CHR 0x95, CHR 0x84, CHR 0xEC, CHR 0x9D, CHR 0xB4, CHR 0xED, CHR 0x85, CHR 0x9C, CHR 0x22]
     @ ''],\<newline>  '' @ [CHR 0x22] @ ''danger_level'' @ [CHR 0x22] @ '': '' @ [CHR 0x22]
     @ ''safe/caution/danger'' @ [CHR 0x22] @ '',\<newline>  '' @ [CHR 0x22] @ ''image_prompt''
     @ [CHR 0x22] @ '': '' @ [CHR 0x22, CHR 0xEC, CHR 0x8B, CHR 0x9C, CHR 0xEB, CHR 0x8C,
     CHR 0x80] @ '' '' @ [CHR 0xEB, CHR 0xB0, CHR 0xB0, CHR 0xEA, CHR 0xB2, CHR 0xBD] @ '' + ''
     @ [CHR 0xED, CHR 0x98, CHR 0x84, CHR 0xEC, CHR 0x9E, CHR 0xAC] @ '' '' @ [CHR 0xEC, CHR 0x9E,
     CHR 0xA5, CHR 0xEB, CHR 0xA9, CHR 0xB4] @ '' '' @ [CHR 0xEB, CHR 0xAC, CHR 0x98, CHR 0xEC,
     CHR 0x82, CHR 0xAC] @ '' + '' @ [CHR 0xED, CHR 0x99, CHR 0x94, CHR 0xED, CHR 0x92, CHR 0x8D]
     @ '' '' @ [CHR 0xED, CHR 0x82, CHR 0xA4, CHR 0xEC, CHR 0x9B, CHR 0x8C, CHR 0xEB, CHR 0x93,
     CHR 0x9C] @ '' ('' @ [CHR 0xEC, CHR 0x98, CHR 0x81, CHR 0xEC, CHR 0x96, CHR 0xB4, CHR 0xEB,
     CHR 0xA1, CHR 0x9C] @ '' '' @ [CHR 0xEC, CHR 0x9E, CHR 0x91, CHR 0xEC, CHR 0x84, CHR 0xB1]
     @ '')'' @ [CHR 0x22] @ ''\<newline>'' @ [CHR 0x7D]"

definition narration_roll_applied :: string where
  "narration_roll_applied =
     [CHR 0xED, CHR 0x8C, CHR 0x90, CHR 0xEC, CHR 0xA0, CHR 0x95] @ '' '' @ [CHR 0xEA, CHR 0xB2,
     CHR 0xB0, CHR 0xEA, CHR 0xB3, CHR 0xBC, CHR 0xEA, CHR 0xB0, CHR 0x80] @ '' '' @ [CHR 0xEC,
     CHR 0xA0, CHR 0x81, CHR 0xEC, CHR 0x9A, CHR 0xA9, CHR 0xEB, CHR 0x90, CHR 0x98, CHR 0xEC,
     CHR 0x97, CHR 0x88, CHR 0xEC, CHR 0x8A, CHR 0xB5, CHR 0xEB, CHR 0x8B, CHR 0x88, CHR 0xEB,
     CHR 0x8B, CHR 0xA4] @ ''.''"

text \<open>The literal pieces of the f-string of lines 439 to 444, in their order.\<close>

definition roll_prompt_0 :: string where
  "roll_prompt_0 =
     [CHR 0xED, CHR 0x94, CHR 0x8C, CHR 0xEB, CHR 0xA0, CHR 0x88, CHR 0xEC, CHR 0x9D, CHR 0xB4,
     CHR 0xEC, CHR 0x96, CHR 0xB4, CHR 0xEA, CHR 0xB0, CHR 0x80] @ '' '' @ [CHR 0x22]"

definition roll_prompt_1 :: string where
  "roll_prompt_1 =
     [CHR 0x22] @ '' '' @ [CHR 0xED, CHR 0x96, CHR 0x89, CHR 0xEB, CHR 0x8F, CHR 0x99, CHR 0xEC,
     CHR 0x9D, CHR 0x84] @ '' '' @ [CHR 0xEC, CHR 0x8B, CHR 0x9C, CHR 0xEB, CHR 0x8F, CHR 0x84,
     CHR 0xED, CHR 0x96, CHR 0x88, CHR 0xEA, CHR 0xB3, CHR 0xA0] @ '', '' @ [CHR 0xEC, CHR 0xA3,
     CHR 0xBC, CHR 0xEC, CHR 0x82, CHR 0xAC, CHR 0xEC, CHR 0x9C, CHR 0x84] @ '' '' @ [CHR 0xED,
     CHR 0x8C, CHR 0x90, CHR 0xEC, CHR 0xA0, CHR 0x95] @ '' '' @ [CHR 0xEA, CHR 0xB2, CHR 0xB0,
     CHR 0xEA, CHR 0xB3, CHR 0xBC, CHR 0xEB, CHR 0x8A, CHR 0x94] @ '' [''"

definition roll_prompt_2 :: string where
  "roll_prompt_2 =
     '']'' @ [CHR 0xEC, CHR 0x9E, CHR 0x85, CHR 0xEB, CHR 0x8B, CHR 0x88, CHR 0xEB, CHR 0x8B,
     CHR 0xA4] @ ''.\<newline>'' @ [CHR 0xEC, CHR 0xA3, CHR 0xBC, CHR 0xEC, CHR 0x82, CHR 0xAC,
     CHR 0xEC, CHR 0x9C, CHR 0x84] @ '': ''"

definition roll_prompt_3 :: string where
  "roll_prompt_3 =
     '' + '' @ [CHR 0xEB, CHR 0xB3, CHR 0xB4, CHR 0xEB, CHR 0x84, CHR 0x88, CHR 0xEC, CHR 0x8A,
     CHR 0xA4] @ '' ''"

definition roll_prompt_4 :: string where
  "roll_prompt_4 = '' = ''"

definition roll_prompt_5 :: string where
  "roll_prompt_5 =
     '' ('' @ [CHR 0xEB, CHR 0xAA, CHR 0xA9, CHR 0xED, CHR 0x91, CHR 0x9C] @ '': ''"

definition roll_prompt_6 :: string where
  "roll_prompt_6 =
     '')\<newline>\<newline>'' @ [CHR 0xEC, CHR 0xBA, CHR 0x90, CHR 0xEB, CHR 0xA6, CHR 0xAD,
     CHR 0xED, CHR 0x84, CHR 0xB0] @ '': ''"

definition roll_prompt_7 :: string where
  "roll_prompt_7 = '' (''"

definition roll_prompt_8 :: string where
  "roll_prompt_8 =
     '')\<newline>\<newline>'' @ [CHR 0xED, CHR 0x8C, CHR 0x90, CHR 0xEC, CHR 0xA0, CHR 0x95]
     @ '' '' @ [CHR 0xEA, CHR 0xB2, CHR 0xB0, CHR 0xEA, CHR 0xB3, CHR 0xBC, CHR 0xEC, CHR 0x97,
     CHR 0x90] @ '' '' @ [CHR 0xEB, CHR 0xA7, CHR 0x9E, CHR 0xEB, CHR 0x8A, CHR 0x94] @ '' ''
     @ [CHR 0xEC, CHR 0x83, CHR 0x81, CHR 0xED, CHR 0x99, CHR 0xA9] @ '' '' @ [CHR 0xEB, CHR 0xAC,
     CHR 0x98, CHR 0xEC, CHR 0x82, CHR 0xAC, CHR 0xEB, CHR 0xA5, CHR 0xBC] @ '' '' @ [CHR 0xEC,
     CHR 0x83, CHR 0x9D, CHR 0xEC, CHR 0x84, CHR 0xB1, CHR 0xED, CHR 0x95, CHR 0xB4, CHR 0xEC,
     CHR 0xA3, CHR 0xBC, CHR 0xEC, CHR 0x84, CHR 0xB8, CHR 0xEC, CHR 0x9A, CHR 0x94] @ ''.''"

text \<open>Line 416; \<^verbatim>\<open>roll_result.get(k)\<close> is \<^verbatim>\<open>None\<close> when the key is missing.\<close>

definition success_text :: "pydict \<Rightarrow> string" where
  "success_text roll_result =
     (if truthy (dict_get roll_result ''is_critical'' JNull) then text_critical
      else if truthy (dict_get roll_result ''is_success'' JNull) then text_success
      else if truthy (dict_get roll_result ''is_fumble'' JNull) then text_fumble
      else text_failure)"

text \<open>
  The request body, \<^verbatim>\<open>class RollResultRequest(BaseModel)\<close>; its first three fields
  carry the prefix \<open>rr\<close> here, the names being taken by the request of the other route.
\<close>

record RollResultRequest =
  rr_scenario :: pydict
  rr_character :: pydict
  rr_action :: string
  roll_result :: pydict

text \<open>
  The f-string of lines 439 to 444, which the handler builds before its \<^verbatim>\<open>try\<close>. The
  action and the result text are strings; formatting one of the six other values can
  raise, and the first that does decides the exception.
\<close>

definition roll_result_prompt :: "runtime \<Rightarrow> RollResultRequest \<Rightarrow> exn + string" where
  "roll_result_prompt rt request =
     (let character = rr_character request;
          action = rr_action request;
          roll_result = roll_result request
      in bind_exn (fmt rt (dict_get roll_result ''roll'' JNull)) (\<lambda>roll.
         bind_exn (fmt rt (dict_get roll_result ''bonus'' JNull)) (\<lambda>bonus.
         bind_exn (fmt rt (dict_get roll_result ''total'' JNull)) (\<lambda>total.
         bind_exn (fmt rt (dict_get roll_result ''difficulty'' JNull)) (\<lambda>difficulty.
         bind_exn (fmt rt (dict_get character ''name'' JNull)) (\<lambda>name.
         bind_exn (fmt rt (dict_get character ''class'' JNull)) (\<lambda>class_name.
           Inr (concat
             [roll_prompt_0, action,
              roll_prompt_1, success_text roll_result,
              roll_prompt_2, roll,
              roll_prompt_3, bonus,
              roll_prompt_4, total,
              roll_prompt_5, difficulty,
              roll_prompt_6, name,
              roll_prompt_7, class_name,
              roll_prompt_8]))))))))"

text \<open>The placeholder of lines 457 to 464.\<close>

definition roll_result_fallback :: pydict where
  "roll_result_fallback =
     [(''narration'', JStr narration_roll_applied),
      (''dialogues'', JArr []),
      (''damage_taken'', JInt 0),
      (''items_gained'', JArr []),
      (''danger_level'', JStr ''safe''),
      (''image_prompt'', JNull)]"

text \<open>The body of the \<^verbatim>\<open>try\<close>, lines 447 to 453.\<close>

definition roll_result_try :: "runtime \<Rightarrow> string \<Rightarrow> exn + pydict" where
  "roll_result_try rt prompt =
     bind_exn (call_gemini rt prompt roll_system_instruction True default_temperature)
       (\<lambda>response_text.
     bind_exn (parse_json_response rt response_text) (\<lambda>result.
       Inr [(''success'', JBool True), (''result'', JObj (default_dialogues result))]))"

text \<open>
  \<^verbatim>\<open>roll_result_narration\<close>, lines 409 to 465. An exception raised while the prompt is
  built leaves the handler; the bare \<^verbatim>\<open>except:\<close> catches whatever the body of the \<^verbatim>\<open>try\<close>
  raises.
\<close>

definition roll_result_narration :: "runtime \<Rightarrow> RollResultRequest \<Rightarrow> exn + pydict" where
  "roll_result_narration rt request =
     bind_exn (roll_result_prompt rt request) (\<lambda>prompt.
       case roll_result_try rt prompt of
         Inr body \<Rightarrow> Inr body
       | Inl e \<Rightarrow> Inr [(''success'', JBool True), (''result'', JObj roll_result_fallback)])"

section \<open>Dice resolver (route POST /api/game/roll)\<close>

text \<open>
  The request body of the dice route, \<^verbatim>\<open>class RollRequest(BaseModel)\<close>: two
  Python integers (unbounded), with the defaults 10 and 12.
\<close>

record RollRequest =
  stat_value :: int
  difficulty :: int

definition default_RollRequest :: RollRequest where
  "default_RollRequest = \<lparr>stat_value = 10, difficulty = 12\<rparr>"

text \<open>
  \<^verbatim>\<open>random.randint(a, b)\<close> of the Python standard library returns an integer \<open>N\<close>
  with \<open>a \<le> N \<le> b\<close>, chosen by the state of the generator. The model takes what the
  generator yields as the natural number \<open>draw\<close> and reduces it into the interval.
\<close>

definition randint :: "int \<Rightarrow> int \<Rightarrow> nat \<Rightarrow> int" where
  "randint a b draw = a + int (draw mod nat (b - a + 1))"

text \<open>
  The dictionary literal that \<^verbatim>\<open>roll_dice\<close> returns has a fixed set of keys; it is a
  record here. The key \<^verbatim>\<open>difficulty\<close> of the reply is the field \<open>target\<close>, since the
  request already has a field of that name.
\<close>

record RollOutcome =
  success :: bool
  roll :: int
  bonus :: int
  total :: int
  target :: int
  is_success :: bool
  is_critical :: bool
  is_fumble :: bool

text \<open>
  \<^verbatim>\<open>roll_dice\<close>, lines 377 to 405. Python's \<^verbatim>\<open>//\<close> on integers rounds towards minus
  infinity, as \<open>div\<close> on \<open>int\<close> does. Integer arithmetic and comparisons raise nothing,
  so the \<^verbatim>\<open>except\<close> branch of the source is never entered and the function always
  returns the dictionary.
\<close>

definition roll_dice :: "nat \<Rightarrow> RollRequest \<Rightarrow> RollOutcome" where
  "roll_dice draw request =
     (let stat_value = stat_value request;
          difficulty = difficulty request;
          roll = randint 1 20 draw;
          total = roll + (stat_value - 10) div 2;
          success = (total \<ge> difficulty);
          critical = (roll = 20);
          fumble = (roll = 1)
      in \<lparr>success = True,
          roll = roll,
          bonus = (stat_value - 10) div 2,
          total = total,
          target = difficulty,
          is_success = (success \<or> critical),
          is_critical = critical,
          is_fumble = fumble\<rparr>)"

section \<open>Sample inputs\<close>

text \<open>
  Concrete surroundings on which the theorems below are exercised. \<open>sample_loads\<close> gives the
  results of \<^verbatim>\<open>json.loads\<close> on the five texts \<^verbatim>\<open>[1,2,3]\<close>, \<^verbatim>\<open>"hi"\<close>, \<^verbatim>\<open>{"a":1}\<close>,
  \<^verbatim>\<open>{"dialogues":["hi"]}\<close> and \<^verbatim>\<open>{not json\<close>; \<open>sample_str\<close> is \<^verbatim>\<open>str\<close> on \<^verbatim>\<open>None\<close>, the
  Booleans and the integers. The sample requests hold small values only, on which
  \<^verbatim>\<open>str\<close> and \<^verbatim>\<open>json.dumps\<close> return.
\<close>

definition text_sequence :: string where
  "text_sequence = ''[1,2,3]''"

definition text_scalar :: string where
  "text_scalar = [CHR 0x22] @ ''hi'' @ [CHR 0x22]"

definition text_mapping :: string where
  "text_mapping = ''{'' @ [CHR 0x22] @ ''a'' @ [CHR 0x22] @ '':1}''"

definition text_event :: string where
  "text_event = ''{'' @ [CHR 0x22] @ ''dialogues'' @ [CHR 0x22] @ '':['' @ [CHR 0x22] @ ''hi''
     @ [CHR 0x22] @ '']}''"

definition text_malformed :: string where
  "text_malformed = ''{not json''"

definition sample_loads :: "string \<Rightarrow> exn + json" where
  "sample_loads text =
     (if text = text_sequence then Inr (JArr [JInt 1, JInt 2, JInt 3])
      else if text = text_scalar then Inr (JStr ''hi'')
      else if text = text_mapping then Inr (JObj [(''a'', JInt 1)])
      else if text = text_event then Inr (JObj [(''dialogues'', JArr [JStr ''hi''])])
      else Inl (JSONDecodeError
        ''Expecting property name enclosed in double quotes: line 1 column 2 (char 1)''))"

definition sample_str :: "json \<Rightarrow> string" where
  "sample_str v =
     (case v of
        JNull \<Rightarrow> ''None''
      | JBool b \<Rightarrow> (if b then ''True'' else ''False'')
      | JInt i \<Rightarrow> (if i < 0 then ''-'' @ show_nat (nat (- i)) else show_nat (nat i))
      | _ \<Rightarrow> [])"

text \<open>
  A runtime whose upstream call returns the given response, and one whose upstream call
  raises the given exception.
\<close>

definition runtime_returning :: "GenerateContentResponse \<Rightarrow> runtime" where
  "runtime_returning response =
     \<lparr>generate_content = (\<lambda>prompt config. Inr response),
      json_loads = sample_loads,
      json_dumps = (\<lambda>v. Inr ''[]''),
      str_of = sample_str,
      str_error = (\<lambda>v. None)\<rparr>"

definition runtime_raising :: "exn \<Rightarrow> runtime" where
  "runtime_raising e =
     \<lparr>generate_content = (\<lambda>prompt config. Inl e),
      json_loads = sample_loads,
      json_dumps = (\<lambda>v. Inr ''[]''),
      str_of = sample_str,
      str_error = (\<lambda>v. None)\<rparr>"

definition sample_entry :: "string \<Rightarrow> string \<Rightarrow> (string \<times> string) list" where
  "sample_entry role text = [(''role'', role), (''text'', text)]"

definition sample_action_request :: "(string \<times> string) list list \<Rightarrow> GameActionRequest" where
  "sample_action_request h = \<lparr>scenario = [], character = [], history = h, action = ''look''\<rparr>"

definition sample_roll_result_request :: RollResultRequest where
  "sample_roll_result_request =
     \<lparr>rr_scenario = [], rr_character = [], rr_action = ''jump'',
      roll_result = [(''roll'', JInt 20), (''is_critical'', JBool True)]\<rparr>"

text \<open>A history of twelve entries: the two oldest lie outside the window.\<close>

definition sample_history :: "(string \<times> string) list list" where
  "sample_history =
     [sample_entry ''gm'' ''a'', [(''text'', ''no role'')],
      sample_entry ''gm'' ''c'', sample_entry ''player'' ''d'', sample_entry ''npc'' ''e'',
      sample_entry ''system'' ''f'', sample_entry ''narrator'' ''g'', sample_entry ''gm'' ''h'',
      sample_entry ''player'' ''i'', sample_entry ''npc'' ''j'', sample_entry ''gm'' ''k'',
      sample_entry ''player'' ''l'']"

section \<open>Properties of the normalizer\<close>

lemma parse_json_response_Inr:
  "json_loads rt text = Inr parsed \<Longrightarrow>
   parse_json_response rt (Some text) = Inr (wrap_non_dict (wrap_list parsed))"
  by (simp add: parse_json_response_def loads_def try_except_def bind_exn_def)

lemma parse_json_response_decode_error:
  "json_loads rt text = Inl (JSONDecodeError m) \<Longrightarrow>
   parse_json_response rt (Some text) =
     Inl (HTTPException 500
       (JObj [(''error'', JStr msg_json_parse_failed), (''reason'', JStr m),
              (''raw_response'', JStr text)]))"
  by (simp add: parse_json_response_def loads_def try_except_def bind_exn_def text_value_def)

text \<open>
  C6. When the text parses, the normalizer returns the parsed mapping itself, or the
  parsed sequence under the key \<open>items\<close>, or the parsed scalar under the key \<open>result\<close>.
\<close>

theorem parse_json_response_shapes:
  assumes "json_loads rt text = Inr parsed"
  shows "parse_json_response rt (Some text) =
           Inr (case parsed of
                  JObj mapping \<Rightarrow> mapping
                | JArr sequence \<Rightarrow> [(''items'', JArr sequence)]
                | _ \<Rightarrow> [(''result'', parsed)])"
  using parse_json_response_Inr [OF assms]
  by (cases parsed) (simp_all add: wrap_list_def wrap_non_dict_def)

theorem parse_json_response_shapes_witness:
  "parse_json_response (runtime_returning NoTextAttribute) (Some text_sequence)
     = Inr [(''items'', JArr [JInt 1, JInt 2, JInt 3])]
   \<and> parse_json_response (runtime_returning NoTextAttribute) (Some text_scalar)
     = Inr [(''result'', JStr ''hi'')]
   \<and> parse_json_response (runtime_returning NoTextAttribute) (Some text_mapping)
     = Inr [(''a'', JInt 1)]"
proof -
  let ?rt = "runtime_returning NoTextAttribute"
  have sequence: "json_loads ?rt text_sequence = Inr (JArr [JInt 1, JInt 2, JInt 3])"
    by (simp add: runtime_returning_def sample_loads_def)
  have scalar: "json_loads ?rt text_scalar = Inr (JStr ''hi'')"
    by (simp add: runtime_returning_def sample_loads_def text_scalar_def text_sequence_def)
  have mapping: "json_loads ?rt text_mapping = Inr (JObj [(''a'', JInt 1)])"
    by (simp add: runtime_returning_def sample_loads_def text_scalar_def text_sequence_def
        text_mapping_def)
  from parse_json_response_shapes [OF sequence] parse_json_response_shapes [OF scalar]
    parse_json_response_shapes [OF mapping]
  show ?thesis by simp
qed



section \<open>Properties of the game-event routes\<close>

lemma update_missing_key: "k \<notin> fst ` set al \<Longrightarrow> AList.update k v al = al @ [(k, v)]"
  by (induction al) auto

lemma default_dialogues_contains: "dict_contains (default_dialogues result) ''dialogues''"
  by (simp add: default_dialogues_def dict_contains_def dict_set_def update_conv')

lemma default_dialogues_other:
  "k \<noteq> ''dialogues'' \<Longrightarrow> map_of (default_dialogues result) k = map_of result k"
  by (simp add: default_dialogues_def dict_set_def update_conv')

lemma default_dialogues_present:
  "dict_contains result ''dialogues'' \<Longrightarrow> default_dialogues result = result"
  by (simp add: default_dialogues_def)

lemma default_dialogues_missing:
  assumes "\<not> dict_contains result ''dialogues''"
  shows "default_dialogues result = result @ [(''dialogues'', JArr [])]"
proof -
  from assms have "''dialogues'' \<notin> fst ` set result"
    by (simp add: dict_contains_def map_of_eq_None_iff)
  with assms show ?thesis
    by (simp add: default_dialogues_def dict_set_def update_missing_key)
qed

lemma game_action_try_success:
  assumes "call_gemini rt prompt action_system_instruction True default_temperature = Inr text"
    and "parse_json_response rt text = Inr normalized"
  shows "game_action_try rt prompt =
           Inr [(''success'', JBool True), (''result'', JObj (default_dialogues normalized))]"
  using assms by (simp add: game_action_try_def bind_exn_def)

lemma roll_result_try_success:
  assumes "call_gemini rt prompt roll_system_instruction True default_temperature = Inr text"
    and "parse_json_response rt text = Inr normalized"
  shows "roll_result_try rt prompt =
           Inr [(''success'', JBool True), (''result'', JObj (default_dialogues normalized))]"
  using assms by (simp add: roll_result_try_def bind_exn_def)

lemma game_action_returns_body:
  assumes "game_action_prompt rt request = Inr prompt"
    and "game_action_try rt prompt = Inr body"
  shows "game_action rt request = Inr body"
  using assms by (simp add: game_action_def bind_exn_def)

lemma sample_prompt_built:
  "\<exists>prompt. game_action_prompt (runtime_returning response) (sample_action_request [])
     = Inr prompt"
  by (simp add: game_action_prompt_def sample_action_request_def history_text_def
      recent_history_def action_prompt_def join_value_def value_get_def dict_get_def
      fmt_def runtime_returning_def bind_exn_def Let_def)


lemma sample_roll_prompt_built:
  "\<exists>prompt. roll_result_prompt (runtime_returning response) sample_roll_result_request
     = Inr prompt"
  by (simp add: roll_result_prompt_def sample_roll_result_request_def dict_get_def
      fmt_def runtime_returning_def bind_exn_def Let_def)

lemma sample_roll_prompt_built_raising:
  "\<exists>prompt. roll_result_prompt (runtime_raising e) sample_roll_result_request = Inr prompt"
  by (simp add: roll_result_prompt_def sample_roll_result_request_def dict_get_def
      fmt_def runtime_raising_def bind_exn_def Let_def)

lemma roll_result_returns_body:
  assumes "roll_result_prompt rt request = Inr prompt"
    and "roll_result_try rt prompt = Inr body"
  shows "roll_result_narration rt request = Inr body"
  using assms by (simp add: roll_result_narration_def bind_exn_def)

lemma call_gemini_returning:
  "call_gemini (runtime_returning (TextAttribute text)) prompt instruction json_mode temperature
     = Inr text"
  by (simp add: call_gemini_def call_gemini_try_def try_except_def bind_exn_def
      runtime_returning_def)

lemma call_gemini_raising:
  "is_Exception e \<Longrightarrow>
   call_gemini (runtime_raising e) prompt instruction json_mode temperature
     = Inl (HTTPException 500
         (JObj [(''error'', JStr msg_gemini_call_failed),
                (''reason'', JStr (exn_str (runtime_raising e) e))]))"
  by (simp add: call_gemini_def call_gemini_try_def try_except_def bind_exn_def
      runtime_raising_def)

lemmas sample_texts =
  text_sequence_def text_scalar_def text_mapping_def text_event_def text_malformed_def

text \<open>
  C9. On the success path of both game-event routes the result is the normalized mapping
  with the key \<open>dialogues\<close> present: a mapping that lacks the key gets it, with the empty
  list, after its other entries; a mapping that has it is returned as it is; and under
  every other key the result holds what the normalized mapping holds, a missing key
  staying missing.
\<close>

theorem dialogues_defaulted:
  assumes "parse_json_response rt text = Inr normalized"
  shows "(game_action_prompt rt request = Inr prompt
            \<and> call_gemini rt prompt action_system_instruction True default_temperature = Inr text
          \<longrightarrow> game_action rt request =
                Inr [(''success'', JBool True), (''result'', JObj (default_dialogues normalized))])
       \<and> (roll_result_prompt rt roll_request = Inr roll_prompt
            \<and> call_gemini rt roll_prompt roll_system_instruction True default_temperature = Inr text
          \<longrightarrow> roll_result_narration rt roll_request =
                Inr [(''success'', JBool True), (''result'', JObj (default_dialogues normalized))])
       \<and> dict_contains (default_dialogues normalized) ''dialogues''
       \<and> (\<forall>k. k \<noteq> ''dialogues'' \<longrightarrow> map_of (default_dialogues normalized) k = map_of normalized k)
       \<and> (dict_contains normalized ''dialogues'' \<longrightarrow> default_dialogues normalized = normalized)
       \<and> (\<not> dict_contains normalized ''dialogues''
          \<longrightarrow> default_dialogues normalized = normalized @ [(''dialogues'', JArr [])])"
proof -
  have action: "game_action rt request =
      Inr [(''success'', JBool True), (''result'', JObj (default_dialogues normalized))]"
    if "game_action_prompt rt request = Inr prompt"
      and "call_gemini rt prompt action_system_instruction True default_temperature = Inr text"
    using that game_action_returns_body game_action_try_success [OF _ assms] by blast
  have roll: "roll_result_narration rt roll_request =
      Inr [(''success'', JBool True), (''result'', JObj (default_dialogues normalized))]"
    if "roll_result_prompt rt roll_request = Inr roll_prompt"
      and "call_gemini rt roll_prompt roll_system_instruction True default_temperature = Inr text"
    using that roll_result_returns_body roll_result_try_success [OF _ assms] by blast
  from action roll show ?thesis
    using default_dialogues_contains default_dialogues_other default_dialogues_present
      default_dialogues_missing by blast
qed

theorem dialogues_defaulted_witness:
  "game_action (runtime_returning (TextAttribute (Some text_mapping))) (sample_action_request [])
     = Inr [(''success'', JBool True),
            (''result'', JObj [(''a'', JInt 1), (''dialogues'', JArr [])])]
   \<and> roll_result_narration (runtime_returning (TextAttribute (Some text_mapping)))
       sample_roll_result_request
     = Inr [(''success'', JBool True),
            (''result'', JObj [(''a'', JInt 1), (''dialogues'', JArr [])])]
   \<and> game_action (runtime_returning (TextAttribute (Some text_event))) (sample_action_request [])
     = Inr [(''success'', JBool True), (''result'', JObj [(''dialogues'', JArr [JStr ''hi''])])]"
proof -
  let ?rt = "runtime_returning (TextAttribute (Some text_mapping))"
  let ?rt' = "runtime_returning (TextAttribute (Some text_event))"
  obtain prompt where prompt: "game_action_prompt ?rt (sample_action_request []) = Inr prompt"
    using sample_prompt_built by blast
  obtain prompt' where prompt': "game_action_prompt ?rt' (sample_action_request []) = Inr prompt'"
    using sample_prompt_built by blast
  obtain roll_prompt where roll_prompt:
    "roll_result_prompt ?rt sample_roll_result_request = Inr roll_prompt"
    using sample_roll_prompt_built by blast
  have parsed: "parse_json_response ?rt (Some text_mapping) = Inr [(''a'', JInt 1)]"
    by (simp add: parse_json_response_def loads_def try_except_def bind_exn_def
        wrap_list_def wrap_non_dict_def runtime_returning_def sample_loads_def sample_texts)
  have parsed': "parse_json_response ?rt' (Some text_event)
      = Inr [(''dialogues'', JArr [JStr ''hi''])]"
    by (simp add: parse_json_response_def loads_def try_except_def bind_exn_def
        wrap_list_def wrap_non_dict_def runtime_returning_def sample_loads_def sample_texts)
  have missing: "\<not> dict_contains [(''a'', JInt 1)] ''dialogues''"
    by (simp add: dict_contains_def)
  have present: "dict_contains [(''dialogues'', JArr [JStr ''hi''])] ''dialogues''"
    by (simp add: dict_contains_def)
  from dialogues_defaulted [OF parsed, of "sample_action_request []" prompt
      sample_roll_result_request roll_prompt]
    dialogues_defaulted [OF parsed', of "sample_action_request []" prompt'
      sample_roll_result_request roll_prompt]
    prompt prompt' roll_prompt missing present call_gemini_returning
  show ?thesis by simp
qed

lemma roll_result_try_raises:
  assumes "call_gemini rt prompt roll_system_instruction True default_temperature = Inl e
           \<or> (\<exists>text. call_gemini rt prompt roll_system_instruction True default_temperature
                      = Inr text
                    \<and> parse_json_response rt text = Inl e)"
  shows "roll_result_try rt prompt = Inl e"
  using assms by (auto simp: roll_result_try_def bind_exn_def)

text \<open>
  The prompt of the roll-result route is built before the \<^verbatim>\<open>try\<close>: when \<^verbatim>\<open>str\<close> raises on
  the value under \<^verbatim>\<open>roll\<close>, the exception leaves the handler.
\<close>

lemma roll_result_prompt_error:
  assumes "dict_get (roll_result request) ''roll'' JNull = JInt n"
    and "str_error rt (JInt n) = Some e"
  shows "roll_result_narration rt request = Inl e"
  using assms
  by (simp add: roll_result_narration_def roll_result_prompt_def fmt_def bind_exn_def Let_def)

text \<open>
  C2. When the upstream call or the normalization raises anything in the roll-result
  route, the handler returns \<open>success = True\<close> with its placeholder, in which \<open>dialogues\<close>
  is the empty list, \<open>damage_taken\<close> is 0, \<open>danger_level\<close> is \<open>safe\<close> and \<open>image_prompt\<close> is
  null. The call is made on the prompt of the request, so the prompt has been built; and
  once it has been built, nothing leaves the handler as an exception.
\<close>

theorem roll_result_swallows:
  assumes "roll_result_prompt rt request = Inr prompt"
    and "call_gemini rt prompt roll_system_instruction True default_temperature = Inl e
         \<or> (\<exists>text. call_gemini rt prompt roll_system_instruction True default_temperature
                    = Inr text
                  \<and> parse_json_response rt text = Inl e)"
  shows "roll_result_narration rt request
           = Inr [(''success'', JBool True), (''result'', JObj roll_result_fallback)]
         \<and> map_of roll_result_fallback ''dialogues'' = Some (JArr [])
         \<and> map_of roll_result_fallback ''damage_taken'' = Some (JInt 0)
         \<and> map_of roll_result_fallback ''danger_level'' = Some (JStr ''safe'')
         \<and> map_of roll_result_fallback ''image_prompt'' = Some JNull
         \<and> (\<forall>rt' request' prompt' e'.
               roll_result_prompt rt' request' = Inr prompt'
               \<longrightarrow> roll_result_narration rt' request' \<noteq> Inl e')"
proof -
  have "roll_result_narration rt request
      = Inr [(''success'', JBool True), (''result'', JObj roll_result_fallback)]"
    using assms(1) roll_result_try_raises [OF assms(2)]
    by (simp add: roll_result_narration_def bind_exn_def)
  moreover have "roll_result_narration rt' request' \<noteq> Inl e'"
    if "roll_result_prompt rt' request' = Inr prompt'" for rt' request' prompt' e'
    using that by (simp add: roll_result_narration_def bind_exn_def split: sum.split)
  ultimately show ?thesis
    by (simp add: roll_result_fallback_def)
qed

theorem roll_result_swallows_witness:
  "roll_result_narration (runtime_raising (OtherException ''ServerError'' ''503 UNAVAILABLE''))
       sample_roll_result_request
     = Inr [(''success'', JBool True), (''result'', JObj roll_result_fallback)]
   \<and> roll_result_narration (runtime_raising (NonException ''KeyboardInterrupt'' []))
       sample_roll_result_request
     = Inr [(''success'', JBool True), (''result'', JObj roll_result_fallback)]
   \<and> roll_result_narration (runtime_returning (TextAttribute (Some text_malformed)))
       sample_roll_result_request
     = Inr [(''success'', JBool True), (''result'', JObj roll_result_fallback)]"
proof -
  let ?down = "runtime_raising (OtherException ''ServerError'' ''503 UNAVAILABLE'')"
  let ?stop = "runtime_raising (NonException ''KeyboardInterrupt'' [])"
  let ?bad = "runtime_returning (TextAttribute (Some text_malformed))"
  obtain p_down where p_down: "roll_result_prompt ?down sample_roll_result_request = Inr p_down"
    using sample_roll_prompt_built_raising by blast
  obtain p_stop where p_stop: "roll_result_prompt ?stop sample_roll_result_request = Inr p_stop"
    using sample_roll_prompt_built_raising by blast
  obtain p_bad where p_bad: "roll_result_prompt ?bad sample_roll_result_request = Inr p_bad"
    using sample_roll_prompt_built by blast
  have down: "call_gemini ?down p_down roll_system_instruction True default_temperature
      = Inl (HTTPException 500
          (JObj [(''error'', JStr msg_gemini_call_failed),
                 (''reason'', JStr ''503 UNAVAILABLE'')]))"
    by (simp add: call_gemini_raising)
  have stop: "call_gemini ?stop p_stop roll_system_instruction True default_temperature
      = Inl (NonException ''KeyboardInterrupt'' [])"
    by (simp add: call_gemini_def call_gemini_try_def try_except_def bind_exn_def
        runtime_raising_def)
  have rejected: "json_loads ?bad text_malformed = Inl (JSONDecodeError
      ''Expecting property name enclosed in double quotes: line 1 column 2 (char 1)'')"
    by (simp add: runtime_returning_def sample_loads_def sample_texts)
  have bad: "\<exists>text. call_gemini ?bad p_bad roll_system_instruction True default_temperature
        = Inr text
      \<and> parse_json_response ?bad text = Inl (HTTPException 500
          (JObj [(''error'', JStr msg_json_parse_failed),
                 (''reason'', JStr
                    ''Expecting property name enclosed in double quotes: line 1 column 2 (char 1)''),
                 (''raw_response'', JStr text_malformed)]))"
    using call_gemini_returning parse_json_response_decode_error [OF rejected] by blast
  from roll_result_swallows [OF p_down disjI1, OF down]
    roll_result_swallows [OF p_stop disjI1, OF stop]
    roll_result_swallows [OF p_bad disjI2, OF bad]
  show ?thesis by simp
qed








section \<open>Properties of the history window\<close>

lemma recent_history_drop: "recent_history hs = drop (length hs - 10) hs"
  by (simp add: recent_history_def slice_from_def nat_diff_distrib')

lemma bind_exn_Inr_iff: "bind_exn m f = Inr y \<longleftrightarrow> (\<exists>x. m = Inr x \<and> f x = Inr y)"
  by (cases m) (simp_all add: bind_exn_def)

lemma history_line_Inr:
  assumes "history_line h = Inr line"
  shows "map_of h ''role'' \<noteq> None \<and> map_of h ''text'' \<noteq> None
         \<and> line = role_label (the (map_of h ''role'')) @ '': '' @ the (map_of h ''text'')"
  using assms
  by (auto simp: history_line_def getitem_def bind_exn_Inr_iff split: option.splits)

lemma map_exn_history_line:
  "map_exn history_line hs = Inr lines \<Longrightarrow>
   (\<forall>h \<in> set hs. map_of h ''role'' \<noteq> None \<and> map_of h ''text'' \<noteq> None)
   \<and> lines = map (\<lambda>h. role_label (the (map_of h ''role'')) @ '': '' @ the (map_of h ''text'')) hs"
proof (induction hs arbitrary: lines)
  case Nil
  then show ?case by simp
next
  case (Cons h hs)
  from Cons.prems obtain line rest where line: "history_line h = Inr line"
    and rest: "map_exn history_line hs = Inr rest" and lines: "lines = line # rest"
    by (auto simp: bind_exn_Inr_iff)
  from history_line_Inr [OF line] Cons.IH [OF rest] lines show ?case by simp
qed

lemma suffix_concat: "suffix ps qs \<Longrightarrow> suffix (concat ps) (concat qs)"
  by (auto simp: suffix_def)

lemma action_prompt_suffix:
  assumes "action_prompt rt sc ch history_str act = Inr prompt"
  shows "suffix (action_prompt_16 @ history_str @ action_prompt_17 @ act @ action_prompt_18)
           prompt"
proof -
  have "suffix (concat [action_prompt_16, history_str, action_prompt_17, act, action_prompt_18])
      prompt"
    using assms unfolding action_prompt_def bind_exn_Inr_iff sum.inject
    by clarify (rule suffix_concat, simp add: suffix_Cons)
  then show ?thesis by simp
qed

lemma recent_history_idem: "recent_history (recent_history hs) = recent_history hs"
  by (simp add: recent_history_drop)

lemma history_text_window: "history_text (recent_history hs) = history_text hs"
  by (simp add: history_text_def recent_history_idem)

lemma history_text_Inr:
  assumes "history_text hs = Inr rendered"
  shows "(\<forall>h \<in> set (recent_history hs). map_of h ''role'' \<noteq> None \<and> map_of h ''text'' \<noteq> None)
         \<and> rendered = join ''\<newline>''
             (map (\<lambda>h. role_label (the (map_of h ''role'')) @ '': '' @ the (map_of h ''text''))
                (recent_history hs))"
proof -
  from assms obtain lines where "map_exn history_line (recent_history hs) = Inr lines"
    and "rendered = join ''\<newline>'' lines"
    by (auto simp: history_text_def bind_exn_Inr_iff)
  with map_exn_history_line show ?thesis by blast
qed

lemma role_labels_distinct: "distinct [label_gm, label_player, label_npc, label_system]"
  by (simp add: label_gm_def label_player_def label_npc_def label_system_def)

text \<open>
  C8. When the prompt of the game-action route is built, the entries it renders are the
  last ten of the history, or all of them when there are no more than ten: each of them
  has a role and a text, their lines stand in the order of the history, joined by line
  breaks, between the heading of the recent events and the heading of the player's
  action; the prompt is the same as for a request that holds these entries only, so no
  older entry reaches it. The roles \<open>gm\<close>, \<open>player\<close> and \<open>npc\<close> have labels of their own,
  and every other role has the system label, which differs from the three.
\<close>

theorem history_window:
  assumes "game_action_prompt rt request = Inr prompt"
    and "window = drop (length (history request) - 10) (history request)"
  shows "length window = min 10 (length (history request))
       \<and> (\<forall>h \<in> set window. map_of h ''role'' \<noteq> None \<and> map_of h ''text'' \<noteq> None)
       \<and> suffix
           (action_prompt_16
            @ join ''\<newline>''
                (map (\<lambda>h. role_label (the (map_of h ''role'')) @ '': '' @ the (map_of h ''text''))
                   window)
            @ action_prompt_17 @ action request @ action_prompt_18)
           prompt
       \<and> game_action_prompt rt (request\<lparr>history := window\<rparr>) = Inr prompt
       \<and> role_label ''gm'' = label_gm
       \<and> role_label ''player'' = label_player
       \<and> role_label ''npc'' = label_npc
       \<and> (\<forall>role. role \<notin> {''gm'', ''player'', ''npc''} \<longrightarrow> role_label role = label_system)
       \<and> distinct [label_gm, label_player, label_npc, label_system]"
proof -
  from assms(1) obtain rendered where rendered: "history_text (history request) = Inr rendered"
    and built: "action_prompt rt (scenario request) (character request) rendered (action request)
      = Inr prompt"
    by (auto simp: game_action_prompt_def Let_def bind_exn_Inr_iff)
  have window: "window = recent_history (history request)"
    by (simp add: assms(2) recent_history_drop)
  have "length window = min 10 (length (history request))"
    by (auto simp: assms(2))
  moreover from history_text_Inr [OF rendered] window
  have "\<forall>h \<in> set window. map_of h ''role'' \<noteq> None \<and> map_of h ''text'' \<noteq> None"
    and lines: "rendered = join ''\<newline>''
      (map (\<lambda>h. role_label (the (map_of h ''role'')) @ '': '' @ the (map_of h ''text'')) window)"
    by simp_all
  moreover from action_prompt_suffix [OF built] lines
  have "suffix
      (action_prompt_16
       @ join ''\<newline>''
           (map (\<lambda>h. role_label (the (map_of h ''role'')) @ '': '' @ the (map_of h ''text''))
              window)
       @ action_prompt_17 @ action request @ action_prompt_18)
      prompt"
    by simp
  moreover have "game_action_prompt rt (request\<lparr>history := window\<rparr>) = Inr prompt"
    using assms(1) by (simp add: game_action_prompt_def Let_def window history_text_window)
  moreover have "role_label ''gm'' = label_gm" "role_label ''player'' = label_player"
    "role_label ''npc'' = label_npc"
    and "\<forall>role. role \<notin> {''gm'', ''player'', ''npc''} \<longrightarrow> role_label role = label_system"
    by (simp_all add: role_label_def)
  ultimately show ?thesis
    using role_labels_distinct by blast
qed

lemma length_sample_history: "length sample_history = 12"
  by (simp add: sample_history_def)

lemma sample_window: "drop 2 sample_history =
    [sample_entry ''gm'' ''c'', sample_entry ''player'' ''d'', sample_entry ''npc'' ''e'',
     sample_entry ''system'' ''f'', sample_entry ''narrator'' ''g'', sample_entry ''gm'' ''h'',
     sample_entry ''player'' ''i'', sample_entry ''npc'' ''j'', sample_entry ''gm'' ''k'',
     sample_entry ''player'' ''l'']"
  by (simp add: sample_history_def)

lemma sample_history_prompt_built:
  "\<exists>prompt. game_action_prompt (runtime_returning response)
     (sample_action_request sample_history) = Inr prompt"
proof -
  have "\<exists>rendered. history_text sample_history = Inr rendered"
    by (simp add: history_text_def recent_history_drop length_sample_history sample_window
        history_line_def getitem_def sample_entry_def bind_exn_def)
  then show ?thesis
    by (auto simp: game_action_prompt_def sample_action_request_def action_prompt_def
        join_value_def value_get_def dict_get_def fmt_def runtime_returning_def bind_exn_def
        Let_def)
qed

theorem history_window_witness:
  "\<not> isl (game_action_prompt (runtime_returning NoTextAttribute)
           (sample_action_request sample_history))
   \<and> game_action_prompt (runtime_returning NoTextAttribute)
       (sample_action_request (drop 2 sample_history))
     = game_action_prompt (runtime_returning NoTextAttribute)
         (sample_action_request sample_history)
   \<and> suffix
       (action_prompt_16
        @ join ''\<newline>''
            [label_gm @ '': c'', label_player @ '': d'', label_npc @ '': e'',
             label_system @ '': f'', label_system @ '': g'', label_gm @ '': h'',
             label_player @ '': i'', label_npc @ '': j'', label_gm @ '': k'',
             label_player @ '': l'']
        @ action_prompt_17 @ ''look'' @ action_prompt_18)
       (projr (game_action_prompt (runtime_returning NoTextAttribute)
          (sample_action_request sample_history)))"
proof -
  let ?rt = "runtime_returning NoTextAttribute"
  obtain prompt where prompt:
    "game_action_prompt ?rt (sample_action_request sample_history) = Inr prompt"
    using sample_history_prompt_built by blast
  have window: "drop 2 sample_history
      = drop (length (history (sample_action_request sample_history)) - 10)
          (history (sample_action_request sample_history))"
    by (simp add: sample_action_request_def length_sample_history)
  have request: "(sample_action_request sample_history)\<lparr>history := drop 2 sample_history\<rparr>
      = sample_action_request (drop 2 sample_history)"
    by (simp add: sample_action_request_def)
  from history_window [OF prompt window] prompt request
  show ?thesis
    by (simp add: sample_window sample_entry_def sample_action_request_def role_label_def)
qed

section \<open>Properties of the dice resolver\<close>

text \<open>
  C3. For all integers \<open>stat_value\<close> and \<open>difficulty\<close> the reported bonus is the floor of
  the exact quotient \<open>(stat_value - 10) / 2\<close>: it is 0 at 10, -2 at 7 and 5 at 21; the
  reported roll is the die value drawn, and the reported total is that value plus the bonus.
\<close>

theorem roll_dice_bonus_floor:
  "bonus (roll_dice draw \<lparr>stat_value = s, difficulty = d\<rparr>) = \<lfloor>(of_int (s - 10) :: real) / 2\<rfloor>
   \<and> bonus (roll_dice draw \<lparr>stat_value = 10, difficulty = d\<rparr>) = 0
   \<and> bonus (roll_dice draw \<lparr>stat_value = 7, difficulty = d\<rparr>) = - 2
   \<and> bonus (roll_dice draw \<lparr>stat_value = 21, difficulty = d\<rparr>) = 5
   \<and> roll (roll_dice draw \<lparr>stat_value = s, difficulty = d\<rparr>) = randint 1 20 draw
   \<and> total (roll_dice draw \<lparr>stat_value = s, difficulty = d\<rparr>)
       = randint 1 20 draw + bonus (roll_dice draw \<lparr>stat_value = s, difficulty = d\<rparr>)"
proof -
  have "\<lfloor>(of_int (s - 10) :: real) / 2\<rfloor> = (s - 10) div 2"
    using floor_divide_of_int_eq [of "s - 10" 2, where ?'a = real] by simp
  then show ?thesis
    by (simp add: roll_dice_def Let_def)
qed

text \<open>
  C4. Whenever the die shows 20 the outcome is a critical and a success, whatever the
  difficulty; in general \<open>is_success\<close> is \<open>total \<ge> difficulty\<close> or \<open>is_critical\<close>.
\<close>

theorem natural_twenty_succeeds:
  assumes "randint 1 20 draw = 20"
  shows "is_critical (roll_dice draw request)
         \<and> is_success (roll_dice draw request)
         \<and> (\<forall>draw' request'. is_success (roll_dice draw' request')
               = (total (roll_dice draw' request') \<ge> difficulty request'
                  \<or> is_critical (roll_dice draw' request')))"
  using assms by (simp add: roll_dice_def Let_def)

theorem natural_twenty_succeeds_witness:
  "randint 1 20 19 = 20
   \<and> total (roll_dice 19 \<lparr>stat_value = 10, difficulty = 100\<rparr>) < 100
   \<and> is_critical (roll_dice 19 \<lparr>stat_value = 10, difficulty = 100\<rparr>)
   \<and> is_success (roll_dice 19 \<lparr>stat_value = 10, difficulty = 100\<rparr>)"
proof -
  have die: "randint 1 20 19 = 20"
    by (simp add: randint_def)
  have "total (roll_dice 19 \<lparr>stat_value = 10, difficulty = 100\<rparr>) < 100"
    by (simp add: roll_dice_def randint_def Let_def)
  with die natural_twenty_succeeds [OF die, of "\<lparr>stat_value = 10, difficulty = 100\<rparr>"]
  show ?thesis by simp
qed

text \<open>
  C5. Whenever the die shows 1 and the total is below the difficulty, the outcome is a
  fumble and not a success.
\<close>

theorem natural_one_below_difficulty_fails:
  assumes "randint 1 20 draw = 1"
    and "total (roll_dice draw request) < difficulty request"
  shows "is_fumble (roll_dice draw request) \<and> \<not> is_success (roll_dice draw request)"
  using assms by (simp add: roll_dice_def Let_def)

theorem natural_one_below_difficulty_fails_witness:
  "randint 1 20 0 = 1
   \<and> total (roll_dice 0 \<lparr>stat_value = 10, difficulty = 12\<rparr>) < 12
   \<and> is_fumble (roll_dice 0 \<lparr>stat_value = 10, difficulty = 12\<rparr>)
   \<and> \<not> is_success (roll_dice 0 \<lparr>stat_value = 10, difficulty = 12\<rparr>)"
proof -
  have die: "randint 1 20 0 = 1"
    by (simp add: randint_def)
  have below: "total (roll_dice 0 \<lparr>stat_value = 10, difficulty = 12\<rparr>)
      < difficulty \<lparr>stat_value = 10, difficulty = 12\<rparr>"
    by (simp add: roll_dice_def randint_def Let_def)
  from natural_one_below_difficulty_fails [OF die below] die below
  show ?thesis by simp
qed

text \<open>
  C10. Every reply of the dice route is consistent: it reports success of the call, the
  total is roll plus bonus, the roll lies between 1 and 20, critical and fumble exclude
  each other, and on a fumble \<open>is_success\<close> holds exactly when the total reaches the
  difficulty, so a natural 1 does not fail by itself.
\<close>

theorem roll_dice_consistent:
  "success (roll_dice draw request)
   \<and> total (roll_dice draw request) = roll (roll_dice draw request) + bonus (roll_dice draw request)
   \<and> 1 \<le> roll (roll_dice draw request) \<and> roll (roll_dice draw request) \<le> 20
   \<and> \<not> (is_critical (roll_dice draw request) \<and> is_fumble (roll_dice draw request))
   \<and> target (roll_dice draw request) = difficulty request
   \<and> (is_fumble (roll_dice draw request) \<longrightarrow>
        is_success (roll_dice draw request)
          = (total (roll_dice draw request) \<ge> difficulty request))"
proof -
  have "1 \<le> randint 1 20 draw" and "randint 1 20 draw \<le> 20"
    by (simp_all add: randint_def)
  then show ?thesis
    by (auto simp: roll_dice_def Let_def)
qed

theorem roll_dice_consistent_witness:
  "is_fumble (roll_dice 0 \<lparr>stat_value = 30, difficulty = 5\<rparr>)
   \<and> total (roll_dice 0 \<lparr>stat_value = 30, difficulty = 5\<rparr>) = 11
   \<and> is_success (roll_dice 0 \<lparr>stat_value = 30, difficulty = 5\<rparr>)
   \<and> is_fumble (roll_dice 0 \<lparr>stat_value = 10, difficulty = 12\<rparr>)
   \<and> \<not> is_success (roll_dice 0 \<lparr>stat_value = 10, difficulty = 12\<rparr>)"
proof -
  have fumble: "is_fumble (roll_dice 0 r)" for r
    by (simp add: roll_dice_def randint_def Let_def)
  have high: "total (roll_dice 0 \<lparr>stat_value = 30, difficulty = 5\<rparr>) = 11"
    by (simp add: roll_dice_def randint_def Let_def)
  have low: "total (roll_dice 0 \<lparr>stat_value = 10, difficulty = 12\<rparr>) = 1"
    by (simp add: roll_dice_def randint_def Let_def)
  from roll_dice_consistent [of 0 "\<lparr>stat_value = 30, difficulty = 5\<rparr>"]
    roll_dice_consistent [of 0 "\<lparr>stat_value = 10, difficulty = 12\<rparr>"]
    fumble high low
  show ?thesis by simp
qed

end
